theory Spec2Isabelle
  imports Main "HOL-Library.Sublist"
begin

section \<open>The vSphere provider of eks-anywhere: data model\<close>

text \<open>
  The development follows \<^verbatim>\<open>pkg/providers/vsphere/vsphere.go\<close>. The API types of
  package \<^verbatim>\<open>v1alpha1\<close>, \<^verbatim>\<open>cluster.Spec\<close> and the release bundle are declared
  outside that file; they are written here as records holding the fields the provider reads.

  Conventions:
  \<^item> a Go \<^verbatim>\<open>string\<close> is a \<open>string\<close>, a Go \<^verbatim>\<open>int\<close> an \<open>int\<close> (the provider only compares
    them for equality);
  \<^item> a Go slice that \<^verbatim>\<open>reflect.DeepEqual\<close> looks at is a \<open>'a list option\<close>: \<open>None\<close> is the
    \<^verbatim>\<open>nil\<close> slice, which \<^verbatim>\<open>DeepEqual\<close> tells apart from an empty one;
  \<^item> a Go map is a map \<open>'k \<rightharpoonup> 'v\<close>;
  \<^item> a pointer that can be \<^verbatim>\<open>nil\<close> where the provider dereferences it (the result of a
    lookup in a map of pointers, an optional part of a spec) is an \<open>option\<close>, and
    dereferencing \<open>None\<close> is the error \<open>Panic\<close>.
\<close>

datatype error = Err string | Panic

type_synonym 'a slice = "'a list option"

record Ref =
  ref_Kind :: string
  ref_Name :: string

record Endpoint =
  Host :: string

record ControlPlaneConfiguration =
  Endpoint :: Endpoint
  cp_MachineGroupRef :: Ref

record ExternalEtcdConfiguration =
  etcd_MachineGroupRef :: Ref

record Taint =
  taint_Key :: string
  taint_Value :: string
  taint_Effect :: string

record WorkerNodeGroupConfiguration =
  wng_Name :: string
  wng_MachineGroupRef :: Ref
  Taints :: "Taint list"
  Labels :: "string \<rightharpoonup> string"

record ClusterSpec =
  KubernetesVersion :: string
  ControlPlaneConfiguration :: ControlPlaneConfiguration
  WorkerNodeGroupConfigurations :: "WorkerNodeGroupConfiguration list"
  ExternalEtcdConfiguration :: "ExternalEtcdConfiguration option"
  DatacenterRef :: Ref

record Cluster =
  cluster_Name :: string
  cluster_Namespace :: string
  cluster_Spec :: ClusterSpec

record VSphereDatacenterConfigSpec =
  Datacenter :: string
  Network :: string
  Server :: string
  Thumbprint :: string
  Insecure :: bool
  DisableCSI :: bool

record VSphereDatacenterConfig =
  vdc_Name :: string
  vdc_Namespace :: string
  vdc_Spec :: VSphereDatacenterConfigSpec

record UserConfiguration =
  user_Name :: string
  SshAuthorizedKeys :: "string slice"

record VSphereMachineConfigSpec =
  DiskGiB :: int
  Datastore :: string
  Folder :: string
  NumCPUs :: int
  MemoryMiB :: int
  OSFamily :: string
  ResourcePool :: string
  StoragePolicyName :: string
  Template :: string
  Users :: "UserConfiguration slice"

record VSphereMachineConfig =
  vmc_Name :: string
  vmc_Namespace :: string
  vmc_Annotations :: "string \<rightharpoonup> string"
  vmc_Spec :: VSphereMachineConfigSpec

text \<open>
  The versions bundle pins an image, with its digest, for every component. Beside the
  vSphere bundle it holds those of other components; the Cilium bundle and the Kubernetes
  distribution are kept here as they appear in \<^verbatim>\<open>pkg/networking/cilium/templater_test.go\<close>
  (lines 47-51).
\<close>

record Image =
  URI :: string
  ImageDigest :: string

record VSphereBundle =
  Version :: string
  Driver :: Image
  Syncer :: Image
  Manager :: Image
  KubeVip :: Image

record CiliumBundle =
  cilium_Version :: string
  cilium_Cilium :: Image
  Operator :: Image
  HelmChart :: Image

record VersionedRepository =
  Tag :: string

record KubeDistro =
  Kubernetes :: VersionedRepository

record VersionsBundle =
  VSphere :: VSphereBundle
  Cilium :: CiliumBundle
  KubeDistro :: KubeDistro

record BundlesSpec =
  Number :: int

record Bundles =
  bundles_Spec :: BundlesSpec

text \<open>\<^verbatim>\<open>types.Cluster\<close>: the handle of a running cluster the kubectl client talks to.\<close>

record types_Cluster =
  tc_Name :: string
  KubeconfigFile :: string

text \<open>\<^verbatim>\<open>cluster.Spec\<close>.\<close>

record Spec =
  Cluster :: Cluster
  Bundles :: Bundles
  VersionsBundle :: VersionsBundle
  VSphereDatacenter :: VSphereDatacenterConfig
  VSphereMachineConfigs :: "string \<rightharpoonup> VSphereMachineConfig"
  ManagementCluster :: types_Cluster

text \<open>
  The comparison helpers and \<^verbatim>\<open>MachineConfigRefs\<close> of package \<^verbatim>\<open>v1alpha1\<close> are called by
  the provider and declared elsewhere. They are parameters of the model: every theorem
  below holds for whatever these functions compute.
\<close>

record v1alpha1 =
  MachineConfigRefs :: "Cluster \<Rightarrow> Ref list"
  WorkerNodeGroupConfigurationSliceTaintsEqual ::
    "WorkerNodeGroupConfiguration list \<Rightarrow> WorkerNodeGroupConfiguration list \<Rightarrow> bool"
  WorkerNodeGroupConfigurationsLabelsMapEqual ::
    "WorkerNodeGroupConfiguration list \<Rightarrow> WorkerNodeGroupConfiguration list \<Rightarrow> bool"
  TaintsSliceEqual :: "Taint list \<Rightarrow> Taint list \<Rightarrow> bool"
  MapEqual :: "(string \<rightharpoonup> string) \<Rightarrow> (string \<rightharpoonup> string) \<Rightarrow> bool"
  UsersSliceEqual :: "UserConfiguration slice \<Rightarrow> UserConfiguration slice \<Rightarrow> bool"

section \<open>The spec differ\<close>

text \<open>
  \<^verbatim>\<open>AnyImmutableFieldChanged\<close> (vsphere.go, lines 512-541). Its first statement reads a
  field through both machine-config pointers, so a \<^verbatim>\<open>nil\<close> one panics at once.
\<close>

definition AnyImmutableFieldChanged ::
  "VSphereDatacenterConfig \<Rightarrow> VSphereDatacenterConfig \<Rightarrow>
   VSphereMachineConfig option \<Rightarrow> VSphereMachineConfig option \<Rightarrow> error + bool" where
  "AnyImmutableFieldChanged oldVdc newVdc oldVmcPtr newVmcPtr =
    (case (oldVmcPtr, newVmcPtr) of
      (Some oldVmc, Some newVmc) \<Rightarrow>
        if NumCPUs (vmc_Spec oldVmc) \<noteq> NumCPUs (vmc_Spec newVmc) then Inr True
        else if MemoryMiB (vmc_Spec oldVmc) \<noteq> MemoryMiB (vmc_Spec newVmc) then Inr True
        else if DiskGiB (vmc_Spec oldVmc) \<noteq> DiskGiB (vmc_Spec newVmc) then Inr True
        else if Datastore (vmc_Spec oldVmc) \<noteq> Datastore (vmc_Spec newVmc) then Inr True
        else if Folder (vmc_Spec oldVmc) \<noteq> Folder (vmc_Spec newVmc) then Inr True
        else if Network (vdc_Spec oldVdc) \<noteq> Network (vdc_Spec newVdc) then Inr True
        else if ResourcePool (vmc_Spec oldVmc) \<noteq> ResourcePool (vmc_Spec newVmc) then Inr True
        else if Thumbprint (vdc_Spec oldVdc) \<noteq> Thumbprint (vdc_Spec newVdc) then Inr True
        else if Template (vmc_Spec oldVmc) \<noteq> Template (vmc_Spec newVmc) then Inr True
        else Inr False
    | _ \<Rightarrow> Inl Panic)"

text \<open>\<^verbatim>\<open>NeedsNewControlPlaneTemplate\<close> (lines 467-481).\<close>

definition NeedsNewControlPlaneTemplate ::
  "Spec \<Rightarrow> Spec \<Rightarrow> VSphereDatacenterConfig \<Rightarrow> VSphereDatacenterConfig \<Rightarrow>
   VSphereMachineConfig option \<Rightarrow> VSphereMachineConfig option \<Rightarrow> error + bool" where
  "NeedsNewControlPlaneTemplate oldSpec newSpec oldVdc newVdc oldVmc newVmc =
    (if KubernetesVersion (cluster_Spec (Cluster oldSpec))
          \<noteq> KubernetesVersion (cluster_Spec (Cluster newSpec)) then Inr True
     else if Host (Endpoint (ControlPlaneConfiguration (cluster_Spec (Cluster oldSpec))))
          \<noteq> Host (Endpoint (ControlPlaneConfiguration (cluster_Spec (Cluster newSpec))))
       then Inr True
     else if Number (bundles_Spec (Bundles oldSpec)) \<noteq> Number (bundles_Spec (Bundles newSpec))
       then Inr True
     else AnyImmutableFieldChanged oldVdc newVdc oldVmc newVmc)"

text \<open>\<^verbatim>\<open>NeedsNewWorkloadTemplate\<close> (lines 483-495).\<close>

definition NeedsNewWorkloadTemplate ::
  "v1alpha1 \<Rightarrow> Spec \<Rightarrow> Spec \<Rightarrow> VSphereDatacenterConfig \<Rightarrow> VSphereDatacenterConfig \<Rightarrow>
   VSphereMachineConfig option \<Rightarrow> VSphereMachineConfig option \<Rightarrow> error + bool" where
  "NeedsNewWorkloadTemplate api oldSpec newSpec oldVdc newVdc oldVmc newVmc =
    (if KubernetesVersion (cluster_Spec (Cluster oldSpec))
          \<noteq> KubernetesVersion (cluster_Spec (Cluster newSpec)) then Inr True
     else if Number (bundles_Spec (Bundles oldSpec)) \<noteq> Number (bundles_Spec (Bundles newSpec))
       then Inr True
     else if \<not> WorkerNodeGroupConfigurationSliceTaintsEqual api
                 (WorkerNodeGroupConfigurations (cluster_Spec (Cluster oldSpec)))
                 (WorkerNodeGroupConfigurations (cluster_Spec (Cluster newSpec)))
             \<or> \<not> WorkerNodeGroupConfigurationsLabelsMapEqual api
                 (WorkerNodeGroupConfigurations (cluster_Spec (Cluster oldSpec)))
                 (WorkerNodeGroupConfigurations (cluster_Spec (Cluster newSpec)))
       then Inr True
     else AnyImmutableFieldChanged oldVdc newVdc oldVmc newVmc)"

text \<open>
  \<^verbatim>\<open>NeedsNewKubeadmConfigTemplate\<close> (lines 497-500). The \<^verbatim>\<open>||\<close> chain reads the machine
  configs only when taints and labels are equal.
\<close>

definition NeedsNewKubeadmConfigTemplate ::
  "v1alpha1 \<Rightarrow> WorkerNodeGroupConfiguration \<Rightarrow> WorkerNodeGroupConfiguration \<Rightarrow>
   VSphereMachineConfig option \<Rightarrow> VSphereMachineConfig option \<Rightarrow> error + bool" where
  "NeedsNewKubeadmConfigTemplate api newWorkerNodeGroup oldWorkerNodeGroup
       oldWorkerNodeVmc newWorkerNodeVmc =
    (if \<not> TaintsSliceEqual api (Taints newWorkerNodeGroup) (Taints oldWorkerNodeGroup)
       then Inr True
     else if \<not> MapEqual api (Labels newWorkerNodeGroup) (Labels oldWorkerNodeGroup)
       then Inr True
     else (case (oldWorkerNodeVmc, newWorkerNodeVmc) of
        (Some oldVmc, Some newVmc) \<Rightarrow>
          Inr (\<not> UsersSliceEqual api (Users (vmc_Spec oldVmc)) (Users (vmc_Spec newVmc)))
      | _ \<Rightarrow> Inl Panic))"

text \<open>\<^verbatim>\<open>NeedsNewEtcdTemplate\<close> (lines 502-510).\<close>

definition NeedsNewEtcdTemplate ::
  "Spec \<Rightarrow> Spec \<Rightarrow> VSphereDatacenterConfig \<Rightarrow> VSphereDatacenterConfig \<Rightarrow>
   VSphereMachineConfig option \<Rightarrow> VSphereMachineConfig option \<Rightarrow> error + bool" where
  "NeedsNewEtcdTemplate oldSpec newSpec oldVdc newVdc oldVmc newVmc =
    (if KubernetesVersion (cluster_Spec (Cluster oldSpec))
          \<noteq> KubernetesVersion (cluster_Spec (Cluster newSpec)) then Inr True
     else if Number (bundles_Spec (Bundles oldSpec)) \<noteq> Number (bundles_Spec (Bundles newSpec))
       then Inr True
     else AnyImmutableFieldChanged oldVdc newVdc oldVmc newVmc)"

text \<open>
  The two per-group wrappers (lines 913-927): a worker node group missing from the index of
  the previous groups gets new templates without any comparison.
\<close>

definition needsNewMachineTemplate ::
  "v1alpha1 \<Rightarrow> Spec \<Rightarrow> Spec \<Rightarrow> WorkerNodeGroupConfiguration \<Rightarrow> VSphereDatacenterConfig \<Rightarrow>
   (string \<rightharpoonup> WorkerNodeGroupConfiguration) \<Rightarrow>
   VSphereMachineConfig option \<Rightarrow> VSphereMachineConfig option \<Rightarrow> error + bool" where
  "needsNewMachineTemplate api currentSpec newClusterSpec workerNodeGroupConfiguration vdc
       prevWorkerNodeGroupConfigs oldWorkerMachineConfig newWorkerMachineConfig =
    (case prevWorkerNodeGroupConfigs (wng_Name workerNodeGroupConfiguration) of
       Some _ \<Rightarrow>
         NeedsNewWorkloadTemplate api currentSpec newClusterSpec vdc
           (VSphereDatacenter newClusterSpec) oldWorkerMachineConfig newWorkerMachineConfig
     | None \<Rightarrow> Inr True)"

definition needsNewKubeadmConfigTemplate ::
  "v1alpha1 \<Rightarrow> WorkerNodeGroupConfiguration \<Rightarrow> (string \<rightharpoonup> WorkerNodeGroupConfiguration) \<Rightarrow>
   VSphereMachineConfig option \<Rightarrow> VSphereMachineConfig option \<Rightarrow> error + bool" where
  "needsNewKubeadmConfigTemplate api workerNodeGroupConfiguration prevWorkerNodeGroupConfigs
       oldWorkerNodeVmc newWorkerNodeVmc =
    (case prevWorkerNodeGroupConfigs (wng_Name workerNodeGroupConfiguration) of
       Some existingWorkerNodeGroupConfig \<Rightarrow>
         NeedsNewKubeadmConfigTemplate api workerNodeGroupConfiguration
           existingWorkerNodeGroupConfig oldWorkerNodeVmc newWorkerNodeVmc
     | None \<Rightarrow> Inr True)"

text \<open>
  Modelled from the spec: \<^verbatim>\<open>cluster.BuildMapForWorkerNodeGroupsByName\<close> is declared in
  package \<^verbatim>\<open>cluster\<close>, not in \<^verbatim>\<open>vsphere.go\<close>. The spec calls its result the index of
  the previous spec's worker-node-group configurations keyed by name; a later group of
  the same name replaces an earlier one.
\<close>

definition BuildMapForWorkerNodeGroupsByName ::
  "WorkerNodeGroupConfiguration list \<Rightarrow> (string \<rightharpoonup> WorkerNodeGroupConfiguration)" where
  "BuildMapForWorkerNodeGroupsByName workerNodeGroups =
     foldl (\<lambda>m config. m(wng_Name config \<mapsto> config)) Map.empty workerNodeGroups"

section \<open>The provider, its collaborators and the world it acts on\<close>

text \<open>
  Objects of the Cluster API that the provider reads back from the cluster during an
  upgrade. Only the reference names the provider uses are kept; the bootstrap
  \<^verbatim>\<open>ConfigRef\<close> of a machine deployment is a pointer.
\<close>

record KubeadmControlPlane =
  kcp_InfrastructureRefName :: string

record MachineDeployment =
  md_BootstrapConfigRef :: "string option"
  md_InfrastructureRefName :: string

record EtcdadmCluster =
  etcd_InfrastructureTemplateName :: string

record Secret =
  Data :: "string \<rightharpoonup> string"

datatype KubectlOpt = WithCluster types_Cluster | WithNamespace string

text \<open>
  \<^verbatim>\<open>ProviderKubectlClient\<close> (lines 118-137) is an interface. A client is given by what
  each method answers; a Go \<^verbatim>\<open>error\<close> result is an \<open>error option\<close>, \<open>None\<close> being
  \<^verbatim>\<open>nil\<close>. Only the methods reached from the functions below are listed. The answer of
  a reading method depends on its arguments alone.
\<close>

record ProviderKubectlClient =
  ApplyKubeSpecFromBytes :: "types_Cluster \<Rightarrow> string \<Rightarrow> error option"
  GetEksaCluster :: "types_Cluster \<Rightarrow> string \<Rightarrow> error + Cluster"
  GetEksaVSphereDatacenterConfig :: "string \<Rightarrow> string \<Rightarrow> string \<Rightarrow> error + VSphereDatacenterConfig"
  GetEksaVSphereMachineConfig :: "string \<Rightarrow> string \<Rightarrow> string \<Rightarrow> error + VSphereMachineConfig"
  GetMachineDeployment :: "string \<Rightarrow> KubectlOpt list \<Rightarrow> error + MachineDeployment"
  GetKubeadmControlPlane :: "types_Cluster \<Rightarrow> string \<Rightarrow> KubectlOpt list \<Rightarrow> error + KubeadmControlPlane"
  GetEtcdadmCluster :: "types_Cluster \<Rightarrow> string \<Rightarrow> KubectlOpt list \<Rightarrow> error + EtcdadmCluster"
  GetSecretFromNamespace :: "string \<Rightarrow> string \<Rightarrow> string \<Rightarrow> error + Secret"
  UpdateAnnotation ::
    "string \<Rightarrow> string \<Rightarrow> (string \<rightharpoonup> string) \<Rightarrow> KubectlOpt list \<Rightarrow> error option"

text \<open>
  What the provider does to the outside is recorded as a list of events, oldest first:
  the two mutating client calls with their outcome, every template name obtained from the
  clock, and every generated SSH key.
\<close>

datatype TemplateKind =
    ControlPlaneTemplate
  | EtcdTemplate
  | WorkerTemplate string
  | KubeadmConfigTemplate string

datatype event =
    EvApplyKubeSpecFromBytes types_Cluster string "error option"
  | EvUpdateAnnotation string string "string \<rightharpoonup> string" "KubectlOpt list" "error option"
  | EvTemplateName TemplateKind string
  | EvGenerateSSHAuthKey "error + string"

type_synonym world = "event list"

type_synonym 'a action = "world \<Rightarrow> (error + 'a) \<times> world"

definition succeed :: "'a \<Rightarrow> 'a action" where
  "succeed x w = (Inr x, w)"

definition lift :: "error + 'a \<Rightarrow> 'a action" where
  "lift r w = (r, w)"

definition andThen :: "'a action \<Rightarrow> ('a \<Rightarrow> 'b action) \<Rightarrow> 'b action" where
  "andThen m f w = (case m w of (Inl e, w') \<Rightarrow> (Inl e, w') | (Inr x, w') \<Rightarrow> f x w')"

text \<open>\<^verbatim>\<open>fmt.Errorf(ctx + "%v", err)\<close>; a panic is not an error value and is not wrapped.\<close>

definition wrapErr :: "string \<Rightarrow> error \<Rightarrow> error" where
  "wrapErr ctx e = (case e of Err msg \<Rightarrow> Err (ctx @ msg) | Panic \<Rightarrow> Panic)"

text \<open>
  The template builder (\<^verbatim>\<open>VsphereTemplateBuilder\<close>, declared in another file of the
  package) is the opaque render service of the spec: its clock \<^verbatim>\<open>now\<close>, here a function
  of what has happened so far, and its two renderers. The control-plane renderer receives
  the build option, a function that sets entries of the value map.
\<close>

record VsphereTemplateBuilder =
  now :: "world \<Rightarrow> int"
  GenerateCAPISpecControlPlane ::
    "Spec \<Rightarrow> ((string \<rightharpoonup> string) \<Rightarrow> (string \<rightharpoonup> string)) \<Rightarrow> error + string"
  GenerateCAPISpecWorkers ::
    "Spec \<Rightarrow> (string \<rightharpoonup> string) \<Rightarrow> (string \<rightharpoonup> string) \<Rightarrow> error + string"

text \<open>
  Package \<^verbatim>\<open>common\<close>: the template-name makers, which take the cluster name (and the
  group name) and the time read from the clock, and the SSH key generator, whose answer
  may depend on what has happened so far.
\<close>

record common =
  CPMachineTemplateName :: "string \<Rightarrow> int \<Rightarrow> string"
  EtcdMachineTemplateName :: "string \<Rightarrow> int \<Rightarrow> string"
  WorkerMachineTemplateName :: "string \<Rightarrow> string \<Rightarrow> int \<Rightarrow> string"
  KubeadmConfigTemplateName :: "string \<Rightarrow> string \<Rightarrow> int \<Rightarrow> string"
  GenerateSSHAuthKey :: "world \<Rightarrow> error + string"

record vsphereProvider =
  clusterConfig :: Cluster
  providerKubectlClient :: ProviderKubectlClient
  templateBuilder :: VsphereTemplateBuilder
  skipIPCheck :: bool
  csiEnabled :: bool

text \<open>Constants of the file (lines 35-48) and of package \<^verbatim>\<open>constants\<close>.\<close>

definition CredentialsObjectName :: string where
  "CredentialsObjectName = ''vsphere-credentials''"

definition vSphereUsernameKey :: string where
  "vSphereUsernameKey = ''VSPHERE_USERNAME''"

definition vSpherePasswordKey :: string where
  "vSpherePasswordKey = ''VSPHERE_PASSWORD''"

definition EksaSystemNamespace :: string where
  "EksaSystemNamespace = ''eksa-system''"

text \<open>\<^verbatim>\<open>os.Getenv\<close>: an unset variable reads as the empty string.\<close>

definition Getenv :: "(string \<rightharpoonup> string) \<Rightarrow> string \<Rightarrow> string" where
  "Getenv env key = (case env key of None \<Rightarrow> [] | Some v \<Rightarrow> v)"

text \<open>\<^verbatim>\<open>NewProviderCustomNet\<close> (lines 166-185), restricted to the fields kept above.\<close>

definition NewProviderCustomNet ::
  "VSphereDatacenterConfig \<Rightarrow> Cluster \<Rightarrow> ProviderKubectlClient \<Rightarrow> VsphereTemplateBuilder \<Rightarrow>
   bool \<Rightarrow> vsphereProvider" where
  "NewProviderCustomNet datacenterConfig clusterConfig' providerKubectlClient' builder skipIpCheck =
    \<lparr>clusterConfig = clusterConfig',
     providerKubectlClient = providerKubectlClient',
     templateBuilder = builder,
     skipIPCheck = skipIpCheck,
     csiEnabled = (\<not> DisableCSI (vdc_Spec datacenterConfig))\<rparr>"

text \<open>
  \<^verbatim>\<open>InstallStorageClass\<close> (lines 706-712). The embedded manifest
  \<^verbatim>\<open>config/defaultStorageClass.yaml\<close> is the parameter \<open>defaultStorageClass\<close>.
\<close>

definition InstallStorageClass ::
  "string \<Rightarrow> vsphereProvider \<Rightarrow> types_Cluster \<Rightarrow> world \<Rightarrow> error option \<times> world" where
  "InstallStorageClass defaultStorageClass p cluster w =
    (if \<not> csiEnabled p then (None, w)
     else (let r = ApplyKubeSpecFromBytes (providerKubectlClient p) cluster defaultStorageClass
           in (r, w @ [EvApplyKubeSpecFromBytes cluster defaultStorageClass r])))"

section \<open>Validation of a new spec\<close>

text \<open>\<^verbatim>\<open>machineRefSliceToMap\<close> (lines 1014-1020).\<close>

definition machineRefSliceToMap :: "Ref list \<Rightarrow> (string \<rightharpoonup> Ref)" where
  "machineRefSliceToMap machineRefs =
     foldl (\<lambda>refMap ref. refMap(ref_Name ref \<mapsto> ref)) Map.empty machineRefs"

text \<open>\<^verbatim>\<open>validateMachineConfigImmutability\<close> (lines 929-944).\<close>

definition validateMachineConfigImmutability ::
  "vsphereProvider \<Rightarrow> types_Cluster \<Rightarrow> VSphereMachineConfig \<Rightarrow> Spec \<Rightarrow> error option" where
  "validateMachineConfigImmutability p cluster newConfig clusterSpec =
    (case GetEksaVSphereMachineConfig (providerKubectlClient p) (vmc_Name newConfig)
            (KubeconfigFile cluster) (cluster_Namespace (Cluster clusterSpec)) of
       Inl err \<Rightarrow> Some err
     | Inr prevMachineConfig \<Rightarrow>
         if StoragePolicyName (vmc_Spec newConfig) \<noteq> StoragePolicyName (vmc_Spec prevMachineConfig)
         then Some (Err (''spec.storagePolicyName is immutable. Previous value ''
                 @ StoragePolicyName (vmc_Spec prevMachineConfig) @ '', new value ''
                 @ StoragePolicyName (vmc_Spec newConfig)))
         else if OSFamily (vmc_Spec newConfig) \<noteq> OSFamily (vmc_Spec prevMachineConfig)
         then Some (Err (''spec.osFamily is immutable. Previous value ''
                 @ OSFamily (vmc_Spec prevMachineConfig) @ '', new value ''
                 @ OSFamily (vmc_Spec newConfig)))
         else None)"

text \<open>The loop over the machine config references of the new spec (lines 865-877).\<close>

fun validateMachineConfigRefs ::
  "vsphereProvider \<Rightarrow> types_Cluster \<Rightarrow> Spec \<Rightarrow> (string \<rightharpoonup> Ref) \<Rightarrow> Ref list \<Rightarrow> error option" where
  "validateMachineConfigRefs p cluster clusterSpec prevMachineConfigRefs [] = None"
| "validateMachineConfigRefs p cluster clusterSpec prevMachineConfigRefs (machineConfigRef # rest) =
    (case VSphereMachineConfigs clusterSpec (ref_Name machineConfigRef) of
       None \<Rightarrow> Some (Err (''cannot find machine config '' @ ref_Name machineConfigRef
                 @ '' in vsphere provider machine configs''))
     | Some machineConfig \<Rightarrow>
         (case prevMachineConfigRefs (vmc_Name machineConfig) of
            Some _ \<Rightarrow>
              (case validateMachineConfigImmutability p cluster machineConfig clusterSpec of
                 Some err \<Rightarrow> Some err
               | None \<Rightarrow> validateMachineConfigRefs p cluster clusterSpec prevMachineConfigRefs rest)
          | None \<Rightarrow> validateMachineConfigRefs p cluster clusterSpec prevMachineConfigRefs rest))"

text \<open>
  \<^verbatim>\<open>secretContentsChanged\<close> (lines 946-962). \<open>env\<close> is the process environment; a key
  missing from the secret's data converts to the empty string.
\<close>

definition secretString :: "Secret \<Rightarrow> string \<Rightarrow> string" where
  "secretString secret key = (case Data secret key of None \<Rightarrow> [] | Some bytes \<Rightarrow> bytes)"

definition secretContentsChanged ::
  "vsphereProvider \<Rightarrow> (string \<rightharpoonup> string) \<Rightarrow> types_Cluster \<Rightarrow> error + bool" where
  "secretContentsChanged p env workloadCluster =
    (let nPassword = Getenv env vSpherePasswordKey in
     case GetSecretFromNamespace (providerKubectlClient p) (KubeconfigFile workloadCluster)
            CredentialsObjectName EksaSystemNamespace of
       Inl err \<Rightarrow>
         Inl (wrapErr (''obtaining VSphere secret '' @ CredentialsObjectName
                        @ '' from workload cluster: '') err)
     | Inr oSecret \<Rightarrow>
         if secretString oSecret ''password'' \<noteq> nPassword then Inr True
         else (let nUser = Getenv env vSphereUsernameKey in
               if secretString oSecret ''username'' \<noteq> nUser then Inr True else Inr False))"

text \<open>\<^verbatim>\<open>ValidateNewSpec\<close> (lines 847-899).\<close>

definition ValidateNewSpec ::
  "v1alpha1 \<Rightarrow> vsphereProvider \<Rightarrow> (string \<rightharpoonup> string) \<Rightarrow> types_Cluster \<Rightarrow> Spec \<Rightarrow> error option" where
  "ValidateNewSpec api p env cluster clusterSpec =
    (case GetEksaCluster (providerKubectlClient p) cluster (cluster_Name (Cluster clusterSpec)) of
       Inl err \<Rightarrow> Some err
     | Inr prevSpec \<Rightarrow>
    (case GetEksaVSphereDatacenterConfig (providerKubectlClient p)
            (ref_Name (DatacenterRef (cluster_Spec prevSpec))) (KubeconfigFile cluster)
            (cluster_Namespace prevSpec) of
       Inl err \<Rightarrow> Some err
     | Inr prevDatacenter \<Rightarrow>
    (let datacenter = VSphereDatacenter clusterSpec;
         oSpec = vdc_Spec prevDatacenter;
         nSpec = vdc_Spec datacenter;
         prevMachineConfigRefs = machineRefSliceToMap (MachineConfigRefs api prevSpec)
     in
     case validateMachineConfigRefs p cluster clusterSpec prevMachineConfigRefs
            (MachineConfigRefs api (Cluster clusterSpec)) of
       Some err \<Rightarrow> Some err
     | None \<Rightarrow>
         if Server nSpec \<noteq> Server oSpec
         then Some (Err (''spec.server is immutable. Previous value '' @ Server oSpec
                 @ '', new value '' @ Server nSpec))
         else if Datacenter nSpec \<noteq> Datacenter oSpec
         then Some (Err (''spec.datacenter is immutable. Previous value '' @ Datacenter oSpec
                 @ '', new value '' @ Datacenter nSpec))
         else if Network nSpec \<noteq> Network oSpec
         then Some (Err (''spec.network is immutable. Previous value '' @ Network oSpec
                 @ '', new value '' @ Network nSpec))
         else (case secretContentsChanged p env cluster of
                 Inl err \<Rightarrow> Some err
               | Inr secretChanged \<Rightarrow>
                   if secretChanged
                   then Some (Err (''the VSphere credentials derived from '' @ vSpherePasswordKey
                          @ '' and '' @ vSphereUsernameKey
                          @ '' are immutable; please use the same credentials for the upgraded cluster''))
                   else None))))"

section \<open>Whether an upgrade is needed\<close>

text \<open>
  The loop of \<^verbatim>\<open>machineConfigsSpecChanged\<close> (lines 192-210). \<^verbatim>\<open>reflect.DeepEqual\<close> on
  two specs is equality of the records. Where Go returns \<^verbatim>\<open>(false, err)\<close> the model
  returns the error alone.
\<close>

fun machineConfigsSpecChangedLoop ::
  "vsphereProvider \<Rightarrow> types_Cluster \<Rightarrow> Spec \<Rightarrow> Ref list \<Rightarrow> error + bool" where
  "machineConfigsSpecChangedLoop p cluster newClusterSpec [] = Inr False"
| "machineConfigsSpecChangedLoop p cluster newClusterSpec (oldMcRef # rest) =
    (case GetEksaVSphereMachineConfig (providerKubectlClient p) (ref_Name oldMcRef)
            (KubeconfigFile cluster) (cluster_Namespace (Cluster newClusterSpec)) of
       Inl err \<Rightarrow> Inl err
     | Inr existingVmc \<Rightarrow>
         (case VSphereMachineConfigs newClusterSpec (ref_Name oldMcRef) of
            None \<Rightarrow> Inr True
          | Some csmc \<Rightarrow>
              if vmc_Spec existingVmc \<noteq> vmc_Spec csmc then Inr True
              else machineConfigsSpecChangedLoop p cluster newClusterSpec rest))"

definition machineConfigsSpecChanged ::
  "v1alpha1 \<Rightarrow> vsphereProvider \<Rightarrow> Cluster \<Rightarrow> types_Cluster \<Rightarrow> Spec \<Rightarrow> error + bool" where
  "machineConfigsSpecChanged api p cc cluster newClusterSpec =
     machineConfigsSpecChangedLoop p cluster newClusterSpec (MachineConfigRefs api cc)"

text \<open>\<^verbatim>\<open>UpgradeNeeded\<close> (lines 988-1012).\<close>

definition UpgradeNeeded ::
  "v1alpha1 \<Rightarrow> vsphereProvider \<Rightarrow> Spec \<Rightarrow> Spec \<Rightarrow> types_Cluster \<Rightarrow> error + bool" where
  "UpgradeNeeded api p newSpec currentSpec cluster =
    (let newV = VSphere (VersionsBundle newSpec);
         oldV = VSphere (VersionsBundle currentSpec)
     in
     if ImageDigest (Driver newV) \<noteq> ImageDigest (Driver oldV)
        \<or> ImageDigest (Syncer newV) \<noteq> ImageDigest (Syncer oldV)
        \<or> ImageDigest (Manager newV) \<noteq> ImageDigest (Manager oldV)
        \<or> ImageDigest (KubeVip newV) \<noteq> ImageDigest (KubeVip oldV)
     then Inr True
     else
       (let cc = Cluster currentSpec in
        case GetEksaVSphereDatacenterConfig (providerKubectlClient p)
               (ref_Name (DatacenterRef (cluster_Spec cc))) (KubeconfigFile cluster)
               (cluster_Namespace (Cluster newSpec)) of
          Inl err \<Rightarrow> Inl err
        | Inr existingVdc \<Rightarrow>
            if vdc_Spec existingVdc \<noteq> vdc_Spec (VSphereDatacenter newSpec) then Inr True
            else machineConfigsSpecChanged api p cc cluster newSpec))"

section \<open>SSH key generation\<close>

text \<open>
  \<^verbatim>\<open>generateSSHKeysIfNotSet\<close> (lines 228-248) ranges over a map of pointers and writes
  through the slice of the first user. The model takes the entries of the map in the
  order the range visits them and returns them as they are afterwards, with the error
  and the new world. Indexing an empty or \<^verbatim>\<open>nil\<close> slice at 0 panics.
\<close>

definition setFirstKey :: "string \<Rightarrow> VSphereMachineConfig \<Rightarrow> VSphereMachineConfig" where
  "setFirstKey key machineConfig =
    (case Users (vmc_Spec machineConfig) of
       Some (user # otherUsers) \<Rightarrow>
         (case SshAuthorizedKeys user of
            Some (key0 # otherKeys) \<Rightarrow>
              machineConfig\<lparr>vmc_Spec := (vmc_Spec machineConfig)
                \<lparr>Users := Some (user\<lparr>SshAuthorizedKeys := Some (key # otherKeys)\<rparr> # otherUsers)\<rparr>\<rparr>
          | _ \<Rightarrow> machineConfig)
     | _ \<Rightarrow> machineConfig)"

definition firstKey :: "VSphereMachineConfig \<Rightarrow> error + string" where
  "firstKey machineConfig =
    (case Users (vmc_Spec machineConfig) of
       Some (user # otherUsers) \<Rightarrow>
         (case SshAuthorizedKeys user of
            Some (key0 # otherKeys) \<Rightarrow> Inr key0
          | _ \<Rightarrow> Inl Panic)
     | _ \<Rightarrow> Inl Panic)"

definition visited ::
  "string \<times> VSphereMachineConfig \<Rightarrow>
   (error option \<times> (string \<times> VSphereMachineConfig) list) \<times> world \<Rightarrow>
   (error option \<times> (string \<times> VSphereMachineConfig) list) \<times> world" where
  "visited entry r = (case r of ((err, entries), w) \<Rightarrow> ((err, entry # entries), w))"

fun generateSSHKeysLoop ::
  "common \<Rightarrow> string \<Rightarrow> (string \<times> VSphereMachineConfig) list \<Rightarrow> world \<Rightarrow>
   (error option \<times> (string \<times> VSphereMachineConfig) list) \<times> world" where
  "generateSSHKeysLoop cm generatedKey [] w = ((None, []), w)"
| "generateSSHKeysLoop cm generatedKey ((name, machineConfig) # rest) w =
    (case firstKey machineConfig of
       Inl err \<Rightarrow> ((Some err, (name, machineConfig) # rest), w)
     | Inr key0 \<Rightarrow>
         if key0 = [] then
           (if generatedKey \<noteq> [] then
              visited (name, setFirstKey generatedKey machineConfig)
                (generateSSHKeysLoop cm generatedKey rest w)
            else
              (case GenerateSSHAuthKey cm w of
                 Inl err \<Rightarrow>
                   ((Some err, (name, machineConfig) # rest), w @ [EvGenerateSSHAuthKey (Inl err)])
               | Inr newKey \<Rightarrow>
                   visited (name, setFirstKey newKey machineConfig)
                     (generateSSHKeysLoop cm newKey rest (w @ [EvGenerateSSHAuthKey (Inr newKey)]))))
         else visited (name, machineConfig) (generateSSHKeysLoop cm generatedKey rest w))"

definition generateSSHKeysIfNotSet ::
  "common \<Rightarrow> (string \<times> VSphereMachineConfig) list \<Rightarrow> world \<Rightarrow>
   (error option \<times> (string \<times> VSphereMachineConfig) list) \<times> world" where
  "generateSSHKeysIfNotSet cm machineConfigs w = generateSSHKeysLoop cm [] machineConfigs w"

section \<open>Generating the Cluster API spec for an upgrade\<close>

text \<open>
  The two steps of \<^verbatim>\<open>generateCAPISpecForUpgrade\<close> that leave a mark on the world:
  a call of a name maker of package \<^verbatim>\<open>common\<close> with the builder's clock, and the
  client's \<^verbatim>\<open>UpdateAnnotation\<close>.
\<close>

definition mintTemplateName ::
  "VsphereTemplateBuilder \<Rightarrow> TemplateKind \<Rightarrow> (int \<Rightarrow> string) \<Rightarrow> string action" where
  "mintTemplateName builder kind nameAt w =
    (let name = nameAt (now builder w) in (Inr name, w @ [EvTemplateName kind name]))"

definition updateAnnotation ::
  "ProviderKubectlClient \<Rightarrow> string \<Rightarrow> string \<Rightarrow> (string \<rightharpoonup> string) \<Rightarrow> KubectlOpt list \<Rightarrow>
   unit action" where
  "updateAnnotation client resourceType objectName annotations opts w =
    (let r = UpdateAnnotation client resourceType objectName annotations opts in
     ((case r of None \<Rightarrow> Inr () | Some err \<Rightarrow> Inl err),
      w @ [EvUpdateAnnotation resourceType objectName annotations opts r]))"

text \<open>\<^verbatim>\<open>machineDeploymentName\<close> (lines 1022-1024).\<close>

definition machineDeploymentName :: "string \<Rightarrow> string \<Rightarrow> string" where
  "machineDeploymentName clusterName nodeGroupName = clusterName @ ''-'' @ nodeGroupName"

text \<open>\<^verbatim>\<open>getWorkerNodeMachineConfigs\<close> (lines 901-911).\<close>

definition getWorkerNodeMachineConfigs ::
  "vsphereProvider \<Rightarrow> types_Cluster \<Rightarrow> Spec \<Rightarrow> WorkerNodeGroupConfiguration \<Rightarrow>
   (string \<rightharpoonup> WorkerNodeGroupConfiguration) \<Rightarrow>
   error + (VSphereMachineConfig option \<times> VSphereMachineConfig option)" where
  "getWorkerNodeMachineConfigs p workloadCluster newClusterSpec workerNodeGroupConfiguration
       prevWorkerNodeGroupConfigs =
    (case prevWorkerNodeGroupConfigs (wng_Name workerNodeGroupConfiguration) of
       Some _ \<Rightarrow>
         (let oldWorkerMachineConfig = VSphereMachineConfigs newClusterSpec
                (ref_Name (wng_MachineGroupRef workerNodeGroupConfiguration)) in
          case GetEksaVSphereMachineConfig (providerKubectlClient p)
                 (ref_Name (wng_MachineGroupRef workerNodeGroupConfiguration))
                 (KubeconfigFile workloadCluster) (cluster_Namespace (Cluster newClusterSpec)) of
            Inl err \<Rightarrow> Inl err
          | Inr newWorkerMachineConfig \<Rightarrow> Inr (oldWorkerMachineConfig, Some newWorkerMachineConfig))
     | None \<Rightarrow> Inr (None, None))"

text \<open>
  Lines 548-570: the cluster and datacenter config as applied, and the name of the
  control plane machine template.
\<close>

definition upgradeControlPlaneTemplateName ::
  "common \<Rightarrow> vsphereProvider \<Rightarrow> types_Cluster \<Rightarrow> types_Cluster \<Rightarrow> Spec \<Rightarrow> Spec \<Rightarrow>
   (Cluster \<times> VSphereDatacenterConfig \<times> string) action" where
  "upgradeControlPlaneTemplateName cm p bootstrapCluster workloadCluster currentSpec newClusterSpec =
    (let clusterName = cluster_Name (Cluster newClusterSpec);
         client = providerKubectlClient p in
     andThen (lift (GetEksaCluster client workloadCluster (cluster_Name (Cluster newClusterSpec))))
     (\<lambda>c.
     andThen (lift (GetEksaVSphereDatacenterConfig client (vdc_Name (VSphereDatacenter newClusterSpec))
                (KubeconfigFile workloadCluster) (cluster_Namespace (Cluster newClusterSpec))))
     (\<lambda>vdc.
     let controlPlaneMachineConfig = VSphereMachineConfigs newClusterSpec
           (ref_Name (cp_MachineGroupRef (ControlPlaneConfiguration
              (cluster_Spec (Cluster newClusterSpec))))) in
     andThen (lift (GetEksaVSphereMachineConfig client
                (ref_Name (cp_MachineGroupRef (ControlPlaneConfiguration (cluster_Spec c))))
                (KubeconfigFile workloadCluster) (cluster_Namespace (Cluster newClusterSpec))))
     (\<lambda>controlPlaneVmc.
     andThen (lift (NeedsNewControlPlaneTemplate currentSpec newClusterSpec vdc
                (VSphereDatacenter newClusterSpec) (Some controlPlaneVmc) controlPlaneMachineConfig))
     (\<lambda>needsNewControlPlaneTemplate.
     andThen
       (if \<not> needsNewControlPlaneTemplate then
          andThen (lift (GetKubeadmControlPlane client workloadCluster (cluster_Name c)
                     [WithCluster bootstrapCluster, WithNamespace EksaSystemNamespace]))
          (\<lambda>cp. succeed (kcp_InfrastructureRefName cp))
        else mintTemplateName (templateBuilder p) ControlPlaneTemplate
               (CPMachineTemplateName cm clusterName))
     (\<lambda>controlPlaneTemplateName. succeed (c, vdc, controlPlaneTemplateName)))))))"

text \<open>
  The body of the loop over the worker node groups of the new spec (lines 578-614); it
  yields the kubeadm config template name and the machine template name of the group.
\<close>

definition upgradeWorkerGroupTemplateNames ::
  "v1alpha1 \<Rightarrow> common \<Rightarrow> vsphereProvider \<Rightarrow> types_Cluster \<Rightarrow> types_Cluster \<Rightarrow> Spec \<Rightarrow> Spec \<Rightarrow>
   VSphereDatacenterConfig \<Rightarrow> (string \<rightharpoonup> WorkerNodeGroupConfiguration) \<Rightarrow>
   WorkerNodeGroupConfiguration \<Rightarrow> (string \<times> string) action" where
  "upgradeWorkerGroupTemplateNames api cm p bootstrapCluster workloadCluster currentSpec
       newClusterSpec vdc previousWorkerNodeGroupConfigs workerNodeGroupConfiguration =
    (let clusterName = cluster_Name (Cluster newClusterSpec);
         client = providerKubectlClient p;
         opts = [WithCluster bootstrapCluster, WithNamespace EksaSystemNamespace] in
     andThen (lift (getWorkerNodeMachineConfigs p workloadCluster newClusterSpec
                workerNodeGroupConfiguration previousWorkerNodeGroupConfigs))
     (\<lambda>(oldWorkerNodeVmc, newWorkerNodeVmc).
     andThen (lift (needsNewMachineTemplate api currentSpec newClusterSpec
                workerNodeGroupConfiguration vdc previousWorkerNodeGroupConfigs
                oldWorkerNodeVmc newWorkerNodeVmc))
     (\<lambda>needsNewWorkloadTemplate.
     andThen (lift (needsNewKubeadmConfigTemplate api workerNodeGroupConfiguration
                previousWorkerNodeGroupConfigs oldWorkerNodeVmc newWorkerNodeVmc))
     (\<lambda>needsNewKubeadmConfigTemplate.
     andThen
       (if \<not> needsNewKubeadmConfigTemplate then
          (let mdName = machineDeploymentName (cluster_Name (Cluster newClusterSpec))
                          (wng_Name workerNodeGroupConfiguration) in
           andThen (lift (GetMachineDeployment client mdName opts))
           (\<lambda>md. case md_BootstrapConfigRef md of
                    None \<Rightarrow> lift (Inl Panic)
                  | Some configRefName \<Rightarrow> succeed configRefName))
        else mintTemplateName (templateBuilder p)
               (KubeadmConfigTemplate (wng_Name workerNodeGroupConfiguration))
               (KubeadmConfigTemplateName cm clusterName (wng_Name workerNodeGroupConfiguration)))
     (\<lambda>kubeadmconfigTemplateName.
     andThen
       (if \<not> needsNewWorkloadTemplate then
          (let mdName = machineDeploymentName (cluster_Name (Cluster newClusterSpec))
                          (wng_Name workerNodeGroupConfiguration) in
           andThen (lift (GetMachineDeployment client mdName opts))
           (\<lambda>md. succeed (md_InfrastructureRefName md)))
        else mintTemplateName (templateBuilder p)
               (WorkerTemplate (wng_Name workerNodeGroupConfiguration))
               (WorkerMachineTemplateName cm clusterName (wng_Name workerNodeGroupConfiguration)))
     (\<lambda>workloadTemplateName.
        succeed (kubeadmconfigTemplateName, workloadTemplateName)))))))"

text \<open>The loop itself (lines 574-615), filling the two maps from group name to template name.\<close>

fun upgradeWorkerTemplateNames ::
  "v1alpha1 \<Rightarrow> common \<Rightarrow> vsphereProvider \<Rightarrow> types_Cluster \<Rightarrow> types_Cluster \<Rightarrow> Spec \<Rightarrow> Spec \<Rightarrow>
   VSphereDatacenterConfig \<Rightarrow> (string \<rightharpoonup> WorkerNodeGroupConfiguration) \<Rightarrow>
   WorkerNodeGroupConfiguration list \<Rightarrow> (string \<rightharpoonup> string) \<Rightarrow> (string \<rightharpoonup> string) \<Rightarrow>
   ((string \<rightharpoonup> string) \<times> (string \<rightharpoonup> string)) action" where
  "upgradeWorkerTemplateNames api cm p bootstrapCluster workloadCluster currentSpec newClusterSpec
       vdc previousWorkerNodeGroupConfigs [] workloadTemplateNames kubeadmconfigTemplateNames =
     succeed (workloadTemplateNames, kubeadmconfigTemplateNames)"
| "upgradeWorkerTemplateNames api cm p bootstrapCluster workloadCluster currentSpec newClusterSpec
       vdc previousWorkerNodeGroupConfigs (workerNodeGroupConfiguration # rest)
       workloadTemplateNames kubeadmconfigTemplateNames =
     andThen (upgradeWorkerGroupTemplateNames api cm p bootstrapCluster workloadCluster
                currentSpec newClusterSpec vdc previousWorkerNodeGroupConfigs
                workerNodeGroupConfiguration)
     (\<lambda>(kubeadmconfigTemplateName, workloadTemplateName).
        upgradeWorkerTemplateNames api cm p bootstrapCluster workloadCluster currentSpec
          newClusterSpec vdc previousWorkerNodeGroupConfigs rest
          (workloadTemplateNames(wng_Name workerNodeGroupConfiguration \<mapsto> workloadTemplateName))
          (kubeadmconfigTemplateNames
             (wng_Name workerNodeGroupConfiguration \<mapsto> kubeadmconfigTemplateName)))"

text \<open>
  Lines 617-644: the name of the etcd machine template. \<open>upgradeInProgress\<close> is the
  annotation key \<^verbatim>\<open>etcdv1.UpgradeInProgressAnnotation\<close> of the etcdadm controller. Without
  external etcd in the new spec the name stays the empty string.
\<close>

definition upgradeEtcdTemplateName ::
  "common \<Rightarrow> string \<Rightarrow> vsphereProvider \<Rightarrow> types_Cluster \<Rightarrow> types_Cluster \<Rightarrow> Spec \<Rightarrow> Spec \<Rightarrow>
   Cluster \<Rightarrow> VSphereDatacenterConfig \<Rightarrow> string action" where
  "upgradeEtcdTemplateName cm upgradeInProgress p bootstrapCluster workloadCluster currentSpec
       newClusterSpec c vdc =
    (let clusterName = cluster_Name (Cluster newClusterSpec);
         client = providerKubectlClient p;
         opts = [WithCluster bootstrapCluster, WithNamespace EksaSystemNamespace] in
     case ExternalEtcdConfiguration (cluster_Spec (Cluster newClusterSpec)) of
       None \<Rightarrow> succeed []
     | Some newEtcd \<Rightarrow>
        (let etcdMachineConfig = VSphereMachineConfigs newClusterSpec
               (ref_Name (etcd_MachineGroupRef newEtcd)) in
         case ExternalEtcdConfiguration (cluster_Spec c) of
           None \<Rightarrow> lift (Inl Panic)
         | Some appliedEtcd \<Rightarrow>
            andThen (lift (GetEksaVSphereMachineConfig client
                       (ref_Name (etcd_MachineGroupRef appliedEtcd))
                       (KubeconfigFile workloadCluster) (cluster_Namespace (Cluster newClusterSpec))))
            (\<lambda>etcdMachineVmc.
            andThen (lift (NeedsNewEtcdTemplate currentSpec newClusterSpec vdc
                       (VSphereDatacenter newClusterSpec) (Some etcdMachineVmc) etcdMachineConfig))
            (\<lambda>needsNewEtcdTemplate.
              if \<not> needsNewEtcdTemplate then
                andThen (lift (GetEtcdadmCluster client workloadCluster clusterName opts))
                (\<lambda>etcdadmCluster. succeed (etcd_InfrastructureTemplateName etcdadmCluster))
              else
                andThen (updateAnnotation client ''etcdadmcluster'' (clusterName @ ''-etcd'')
                           [upgradeInProgress \<mapsto> ''true''] opts)
                (\<lambda>_. mintTemplateName (templateBuilder p) EtcdTemplate
                        (EtcdMachineTemplateName cm clusterName))))))"

text \<open>The build option \<^verbatim>\<open>cpOpt\<close> (lines 646-649).\<close>

definition cpOpt :: "string \<Rightarrow> string \<Rightarrow> (string \<rightharpoonup> string) \<Rightarrow> (string \<rightharpoonup> string)" where
  "cpOpt controlPlaneTemplateName etcdTemplateName values =
     values(''controlPlaneTemplateName'' \<mapsto> controlPlaneTemplateName,
            ''etcdTemplateName'' \<mapsto> etcdTemplateName)"

text \<open>\<^verbatim>\<open>generateCAPISpecForUpgrade\<close> (lines 543-660).\<close>

definition generateCAPISpecForUpgrade ::
  "v1alpha1 \<Rightarrow> common \<Rightarrow> string \<Rightarrow> vsphereProvider \<Rightarrow> types_Cluster \<Rightarrow> types_Cluster \<Rightarrow>
   Spec \<Rightarrow> Spec \<Rightarrow> (string \<times> string) action" where
  "generateCAPISpecForUpgrade api cm upgradeInProgress p bootstrapCluster workloadCluster
       currentSpec newClusterSpec =
     andThen (upgradeControlPlaneTemplateName cm p bootstrapCluster workloadCluster
                currentSpec newClusterSpec)
     (\<lambda>(c, vdc, controlPlaneTemplateName).
     let previousWorkerNodeGroupConfigs = BuildMapForWorkerNodeGroupsByName
           (WorkerNodeGroupConfigurations (cluster_Spec (Cluster currentSpec))) in
     andThen (upgradeWorkerTemplateNames api cm p bootstrapCluster workloadCluster currentSpec
                newClusterSpec vdc previousWorkerNodeGroupConfigs
                (WorkerNodeGroupConfigurations (cluster_Spec (Cluster newClusterSpec)))
                Map.empty Map.empty)
     (\<lambda>(workloadTemplateNames, kubeadmconfigTemplateNames).
     andThen (upgradeEtcdTemplateName cm upgradeInProgress p bootstrapCluster workloadCluster
                currentSpec newClusterSpec c vdc)
     (\<lambda>etcdTemplateName.
     andThen (lift (GenerateCAPISpecControlPlane (templateBuilder p) newClusterSpec
                (cpOpt controlPlaneTemplateName etcdTemplateName)))
     (\<lambda>controlPlaneSpec.
     andThen (lift (GenerateCAPISpecWorkers (templateBuilder p) newClusterSpec
                workloadTemplateNames kubeadmconfigTemplateNames))
     (\<lambda>workersSpec. succeed (controlPlaneSpec, workersSpec))))))"

text \<open>\<^verbatim>\<open>GenerateCAPISpecForUpgrade\<close> (lines 690-696).\<close>

definition GenerateCAPISpecForUpgrade ::
  "v1alpha1 \<Rightarrow> common \<Rightarrow> string \<Rightarrow> vsphereProvider \<Rightarrow> types_Cluster \<Rightarrow> types_Cluster \<Rightarrow>
   Spec \<Rightarrow> Spec \<Rightarrow> (string \<times> string) action" where
  "GenerateCAPISpecForUpgrade api cm upgradeInProgress p bootstrapCluster workloadCluster
       currentSpec clusterSpec w =
    (case generateCAPISpecForUpgrade api cm upgradeInProgress p bootstrapCluster workloadCluster
            currentSpec clusterSpec w of
       (Inl err, w') \<Rightarrow> (Inl (wrapErr ''generating cluster api spec contents: '' err), w')
     | (Inr specs, w') \<Rightarrow> (Inr specs, w'))"

text \<open>
  The events of the etcd rollover: an annotation update, and a new name for the etcd
  machine template. An action is \<open>quiet\<close> when it adds none of them to the world.
\<close>

fun touchesEtcd :: "event \<Rightarrow> bool" where
  "touchesEtcd (EvUpdateAnnotation resourceType objectName annotations opts outcome) = True"
| "touchesEtcd (EvTemplateName kind name) = (kind = EtcdTemplate)"
| "touchesEtcd (EvApplyKubeSpecFromBytes cluster manifest outcome) = False"
| "touchesEtcd (EvGenerateSSHAuthKey outcome) = False"

definition quiet :: "'a action \<Rightarrow> bool" where
  "quiet m \<longleftrightarrow>
     (\<forall>w r w'. m w = (r, w') \<longrightarrow> (\<exists>evs. w' = w @ evs \<and> (\<forall>e \<in> set evs. \<not> touchesEtcd e)))"

section \<open>A concrete cluster\<close>

text \<open>
  A small cluster with one worker node group and external etcd, all on one machine
  config, and a client that answers from it. The closed theorems below are evaluated on
  these values.
\<close>

definition example_vdc :: VSphereDatacenterConfig where
  "example_vdc = \<lparr>vdc_Name = ''dc'', vdc_Namespace = ''default'',
     vdc_Spec = \<lparr>Datacenter = ''SDDC-Datacenter'', Network = ''/net/vm-network'',
       Server = ''vcenter.example.com'', Thumbprint = ''AB:CD'', Insecure = False,
       DisableCSI = False\<rparr>\<rparr>"

definition example_vmc :: VSphereMachineConfig where
  "example_vmc = \<lparr>vmc_Name = ''machines'', vmc_Namespace = ''default'',
     vmc_Annotations = Map.empty,
     vmc_Spec = \<lparr>DiskGiB = 25, Datastore = ''/ds/datastore1'', Folder = ''/vm/folder'',
       NumCPUs = 2, MemoryMiB = 8192, OSFamily = ''bottlerocket'', ResourcePool = ''/pool'',
       StoragePolicyName = ''vSAN Default'', Template = ''/tpl/bottlerocket-1-23'',
       Users = Some [\<lparr>user_Name = ''ec2-user'', SshAuthorizedKeys = Some [''ssh-rsa AAAA'']\<rparr>]\<rparr>\<rparr>"

definition example_ref :: Ref where
  "example_ref = \<lparr>ref_Kind = ''VSphereMachineConfig'', ref_Name = ''machines''\<rparr>"

definition example_group :: WorkerNodeGroupConfiguration where
  "example_group = \<lparr>wng_Name = ''md-0'', wng_MachineGroupRef = example_ref,
     Taints = [], Labels = Map.empty\<rparr>"

definition example_cluster :: Cluster where
  "example_cluster = \<lparr>cluster_Name = ''test'', cluster_Namespace = ''default'',
     cluster_Spec = \<lparr>KubernetesVersion = ''1.23'',
       ControlPlaneConfiguration =
         \<lparr>Endpoint = \<lparr>Host = ''10.0.0.1''\<rparr>, cp_MachineGroupRef = example_ref\<rparr>,
       WorkerNodeGroupConfigurations = [example_group],
       ExternalEtcdConfiguration = Some \<lparr>etcd_MachineGroupRef = example_ref\<rparr>,
       DatacenterRef = \<lparr>ref_Kind = ''VSphereDatacenterConfig'', ref_Name = ''dc''\<rparr>\<rparr>\<rparr>"

definition example_bundle :: VSphereBundle where
  "example_bundle = \<lparr>Version = ''v1.0.0'',
     Driver = \<lparr>URI = ''registry/csi-driver:v2'', ImageDigest = ''sha256:d1''\<rparr>,
     Syncer = \<lparr>URI = ''registry/csi-syncer:v2'', ImageDigest = ''sha256:s1''\<rparr>,
     Manager = \<lparr>URI = ''registry/cpi-manager:v1'', ImageDigest = ''sha256:m1''\<rparr>,
     KubeVip = \<lparr>URI = ''registry/kube-vip:v0'', ImageDigest = ''sha256:k1''\<rparr>\<rparr>"

definition example_versions_bundle :: VersionsBundle where
  "example_versions_bundle = \<lparr>VSphere = example_bundle,
     Cilium = \<lparr>cilium_Version = ''v1.9.10-eksa.1'',
       cilium_Cilium = \<lparr>URI = ''public.ecr.aws/isovalent/cilium:v1.9.10-eksa.1'',
                        ImageDigest = ''sha256:c1''\<rparr>,
       Operator = \<lparr>URI = ''public.ecr.aws/isovalent/operator-generic:v1.9.10-eksa.1'',
                   ImageDigest = ''sha256:o1''\<rparr>,
       HelmChart = \<lparr>URI = ''public.ecr.aws/isovalent/cilium:1.9.10-eksa.1'',
                    ImageDigest = ''sha256:h1''\<rparr>\<rparr>,
     KubeDistro = \<lparr>Kubernetes = \<lparr>Tag = ''v1.22.5-eks-1-22-9''\<rparr>\<rparr>\<rparr>"

definition example_spec :: Spec where
  "example_spec = \<lparr>Cluster = example_cluster,
     Bundles = \<lparr>bundles_Spec = \<lparr>Number = 1\<rparr>\<rparr>,
     VersionsBundle = example_versions_bundle,
     VSphereDatacenter = example_vdc,
     VSphereMachineConfigs = [''machines'' \<mapsto> example_vmc],
     ManagementCluster = \<lparr>tc_Name = ''mgmt'', KubeconfigFile = ''mgmt.kubeconfig''\<rparr>\<rparr>"

definition with_version :: "string \<Rightarrow> Spec \<Rightarrow> Spec" where
  "with_version v s =
     s\<lparr>Cluster := (Cluster s)\<lparr>cluster_Spec := (cluster_Spec (Cluster s))\<lparr>KubernetesVersion := v\<rparr>\<rparr>\<rparr>"

definition with_host :: "string \<Rightarrow> Spec \<Rightarrow> Spec" where
  "with_host h s =
     s\<lparr>Cluster := (Cluster s)\<lparr>cluster_Spec := (cluster_Spec (Cluster s))
       \<lparr>ControlPlaneConfiguration :=
          (ControlPlaneConfiguration (cluster_Spec (Cluster s)))\<lparr>Endpoint := \<lparr>Host = h\<rparr>\<rparr>\<rparr>\<rparr>\<rparr>"

definition with_datacenter_spec ::
  "(VSphereDatacenterConfigSpec \<Rightarrow> VSphereDatacenterConfigSpec) \<Rightarrow> Spec \<Rightarrow> Spec" where
  "with_datacenter_spec f s =
     s\<lparr>VSphereDatacenter := (VSphereDatacenter s)\<lparr>vdc_Spec := f (vdc_Spec (VSphereDatacenter s))\<rparr>\<rparr>"

definition example_workload :: types_Cluster where
  "example_workload = \<lparr>tc_Name = ''test'', KubeconfigFile = ''test.kubeconfig''\<rparr>"

definition example_bootstrap :: types_Cluster where
  "example_bootstrap = \<lparr>tc_Name = ''bootstrap'', KubeconfigFile = ''bootstrap.kubeconfig''\<rparr>"

definition example_api :: v1alpha1 where
  "example_api = \<lparr>
     MachineConfigRefs = (\<lambda>c.
        cp_MachineGroupRef (ControlPlaneConfiguration (cluster_Spec c))
        # map wng_MachineGroupRef (WorkerNodeGroupConfigurations (cluster_Spec c))),
     WorkerNodeGroupConfigurationSliceTaintsEqual = (\<lambda>a b. map Taints a = map Taints b),
     WorkerNodeGroupConfigurationsLabelsMapEqual = (\<lambda>a b. map Labels a = map Labels b),
     TaintsSliceEqual = (\<lambda>a b. a = b),
     MapEqual = (\<lambda>a b. a = b),
     UsersSliceEqual = (\<lambda>a b. a = b)\<rparr>"

definition example_client :: ProviderKubectlClient where
  "example_client = \<lparr>
     ApplyKubeSpecFromBytes = (\<lambda>cluster manifest. None),
     GetEksaCluster = (\<lambda>cluster name.
        if name = ''test'' then Inr example_cluster else Inl (Err ''cluster not found'')),
     GetEksaVSphereDatacenterConfig = (\<lambda>name kubeconfig namespace.
        if name = ''dc'' then Inr example_vdc else Inl (Err ''datacenter config not found'')),
     GetEksaVSphereMachineConfig = (\<lambda>name kubeconfig namespace.
        if name = ''machines'' then Inr example_vmc else Inl (Err ''machine config not found'')),
     GetMachineDeployment = (\<lambda>name opts.
        Inr \<lparr>md_BootstrapConfigRef = Some ''test-md-0-template-1'',
             md_InfrastructureRefName = ''test-md-0-1''\<rparr>),
     GetKubeadmControlPlane = (\<lambda>cluster name opts.
        Inr \<lparr>kcp_InfrastructureRefName = ''test-control-plane-template-1''\<rparr>),
     GetEtcdadmCluster = (\<lambda>cluster name opts.
        Inr \<lparr>etcd_InfrastructureTemplateName = ''test-etcd-template-1''\<rparr>),
     GetSecretFromNamespace = (\<lambda>kubeconfig name namespace.
        Inr \<lparr>Data = [''username'' \<mapsto> ''A'', ''password'' \<mapsto> ''pw'']\<rparr>),
     UpdateAnnotation = (\<lambda>resourceType objectName annotations opts. None)\<rparr>"

definition example_builder :: VsphereTemplateBuilder where
  "example_builder = \<lparr>
     now = (\<lambda>w. 1700000000000 + int (length w)),
     GenerateCAPISpecControlPlane = (\<lambda>spec opt.
        case opt Map.empty ''etcdTemplateName'' of
          None \<Rightarrow> Inl (Err ''missing etcd template name'')
        | Some name \<Rightarrow> Inr (''etcd: '' @ name)),
     GenerateCAPISpecWorkers = (\<lambda>spec workloadTemplateNames kubeadmconfigTemplateNames.
        Inr ''workers'')\<rparr>"

definition example_common :: common where
  "example_common = \<lparr>
     CPMachineTemplateName = (\<lambda>clusterName t. clusterName @ ''-control-plane-template''),
     EtcdMachineTemplateName = (\<lambda>clusterName t. clusterName @ ''-etcd-template''),
     WorkerMachineTemplateName = (\<lambda>clusterName groupName t. clusterName @ ''-'' @ groupName),
     KubeadmConfigTemplateName = (\<lambda>clusterName groupName t.
        clusterName @ ''-'' @ groupName @ ''-template''),
     GenerateSSHAuthKey = (\<lambda>w. Inr ''ssh-rsa GENERATED'')\<rparr>"

definition example_provider :: vsphereProvider where
  "example_provider =
     NewProviderCustomNet example_vdc example_cluster example_client example_builder False"

definition with_machine_spec ::
  "(VSphereMachineConfigSpec \<Rightarrow> VSphereMachineConfigSpec) \<Rightarrow> Spec \<Rightarrow> Spec" where
  "with_machine_spec f s =
     s\<lparr>VSphereMachineConfigs :=
         [''machines'' \<mapsto> example_vmc\<lparr>vmc_Spec := f (vmc_Spec example_vmc)\<rparr>]\<rparr>"

definition example_unset_vmc :: "string \<Rightarrow> VSphereMachineConfig" where
  "example_unset_vmc name = example_vmc\<lparr>vmc_Name := name,
     vmc_Spec := (vmc_Spec example_vmc)
       \<lparr>Users := Some [\<lparr>user_Name = ''ec2-user'', SshAuthorizedKeys = Some [[]]\<rparr>]\<rparr>\<rparr>"

text \<open>The same provider with a client that refuses every annotation update.\<close>

definition example_refusing_provider :: vsphereProvider where
  "example_refusing_provider = example_provider\<lparr>providerKubectlClient :=
     example_client\<lparr>UpdateAnnotation :=
       (\<lambda>resourceType objectName annotations opts. Some (Err ''forbidden''))\<rparr>\<rparr>"

text \<open>
  The concrete spec with another digest for the kube-vip image of the vSphere bundle, and
  with another digest for the Cilium image.
\<close>

definition with_kube_vip_digest :: "string \<Rightarrow> Spec \<Rightarrow> Spec" where
  "with_kube_vip_digest digest s =
     s\<lparr>VersionsBundle := (VersionsBundle s)\<lparr>VSphere := (VSphere (VersionsBundle s))
       \<lparr>KubeVip := (KubeVip (VSphere (VersionsBundle s)))\<lparr>ImageDigest := digest\<rparr>\<rparr>\<rparr>\<rparr>"

definition with_cilium_digest :: "string \<Rightarrow> Spec \<Rightarrow> Spec" where
  "with_cilium_digest digest s =
     s\<lparr>VersionsBundle := (VersionsBundle s)\<lparr>Cilium := (Cilium (VersionsBundle s))
       \<lparr>cilium_Cilium := (cilium_Cilium (Cilium (VersionsBundle s)))\<lparr>ImageDigest := digest\<rparr>\<rparr>\<rparr>\<rparr>"

text \<open>The concrete spec moved to another server and another datacenter at once.\<close>

definition example_moved_spec :: Spec where
  "example_moved_spec =
     with_datacenter_spec
       (\<lambda>d. d\<lparr>Server := ''vcenter2.example.com'', Datacenter := ''Other-Datacenter''\<rparr>)
       example_spec"

text \<open>The same provider with a client that cannot read any machine config.\<close>

definition example_unreadable_provider :: vsphereProvider where
  "example_unreadable_provider = example_provider\<lparr>providerKubectlClient :=
     example_client\<lparr>GetEksaVSphereMachineConfig :=
       (\<lambda>name kubeconfig namespace. Inl (Err ''connection refused''))\<rparr>\<rparr>"

section \<open>The spec differ: theorems\<close>

text \<open>
  Claim C3. On two machine configs and two datacenter configs, \<^verbatim>\<open>AnyImmutableFieldChanged\<close>
  returns true exactly when one of nine fields differs: \<^verbatim>\<open>NumCPUs\<close>, \<^verbatim>\<open>MemoryMiB\<close>,
  \<^verbatim>\<open>DiskGiB\<close>, \<^verbatim>\<open>Datastore\<close>, \<^verbatim>\<open>Folder\<close>, \<^verbatim>\<open>ResourcePool\<close>, \<^verbatim>\<open>Template\<close> of the machine
  config, \<^verbatim>\<open>Network\<close>, \<^verbatim>\<open>Thumbprint\<close> of the datacenter config. No other field enters the
  result, so with the nine equal it is false whatever else changed; and a machine config
  that differs from the old one only in \<^verbatim>\<open>DiskGiB\<close> gives true.
\<close>

theorem AnyImmutableFieldChanged_iff:
  "AnyImmutableFieldChanged oldVdc newVdc (Some oldVmc) (Some newVmc) =
     Inr (NumCPUs (vmc_Spec oldVmc) \<noteq> NumCPUs (vmc_Spec newVmc)
        \<or> MemoryMiB (vmc_Spec oldVmc) \<noteq> MemoryMiB (vmc_Spec newVmc)
        \<or> DiskGiB (vmc_Spec oldVmc) \<noteq> DiskGiB (vmc_Spec newVmc)
        \<or> Datastore (vmc_Spec oldVmc) \<noteq> Datastore (vmc_Spec newVmc)
        \<or> Folder (vmc_Spec oldVmc) \<noteq> Folder (vmc_Spec newVmc)
        \<or> ResourcePool (vmc_Spec oldVmc) \<noteq> ResourcePool (vmc_Spec newVmc)
        \<or> Template (vmc_Spec oldVmc) \<noteq> Template (vmc_Spec newVmc)
        \<or> Network (vdc_Spec oldVdc) \<noteq> Network (vdc_Spec newVdc)
        \<or> Thumbprint (vdc_Spec oldVdc) \<noteq> Thumbprint (vdc_Spec newVdc))
   \<and> (\<forall>d. d \<noteq> DiskGiB (vmc_Spec oldVmc) \<longrightarrow>
        AnyImmutableFieldChanged oldVdc oldVdc (Some oldVmc)
          (Some (oldVmc\<lparr>vmc_Spec := (vmc_Spec oldVmc)\<lparr>DiskGiB := d\<rparr>\<rparr>)) = Inr True)"
  by (simp add: AnyImmutableFieldChanged_def)

text \<open>
  On the concrete cluster: a disk of 50 GiB instead of 25 gives true; a new server, storage
  policy, annotation and user list with the nine fields unchanged give false.
\<close>

theorem AnyImmutableFieldChanged_iff_witness:
  "AnyImmutableFieldChanged example_vdc example_vdc (Some example_vmc)
      (Some (example_vmc\<lparr>vmc_Spec := (vmc_Spec example_vmc)\<lparr>DiskGiB := 50\<rparr>\<rparr>)) = Inr True
   \<and> AnyImmutableFieldChanged example_vdc
       (example_vdc\<lparr>vdc_Spec := (vdc_Spec example_vdc)\<lparr>Server := ''other''\<rparr>\<rparr>)
       (Some example_vmc)
       (Some (example_vmc\<lparr>vmc_Annotations := [''note'' \<mapsto> ''x''],
            vmc_Spec := (vmc_Spec example_vmc)\<lparr>StoragePolicyName := ''gold'', Users := None\<rparr>\<rparr>))
     = Inr False"
  using AnyImmutableFieldChanged_iff [of example_vdc example_vdc example_vmc example_vmc]
    AnyImmutableFieldChanged_iff [of example_vdc
       "example_vdc\<lparr>vdc_Spec := (vdc_Spec example_vdc)\<lparr>Server := ''other''\<rparr>\<rparr>" example_vmc
       "example_vmc\<lparr>vmc_Annotations := [''note'' \<mapsto> ''x''],
            vmc_Spec := (vmc_Spec example_vmc)\<lparr>StoragePolicyName := ''gold'', Users := None\<rparr>\<rparr>"]
  by (simp add: example_vmc_def example_vdc_def)

text \<open>
  Claim C1 puts no condition on the control plane endpoint host. The function compares the
  hosts (line 474): two specs that differ in nothing but the host need a new control plane
  template.
\<close>

theorem NeedsNewControlPlaneTemplate_host_counterexample:
  "KubernetesVersion (cluster_Spec (Cluster example_spec))
     = KubernetesVersion (cluster_Spec (Cluster (with_host ''10.0.0.2'' example_spec)))
   \<and> Number (bundles_Spec (Bundles example_spec))
     = Number (bundles_Spec (Bundles (with_host ''10.0.0.2'' example_spec)))
   \<and> NeedsNewControlPlaneTemplate example_spec (with_host ''10.0.0.2'' example_spec)
       example_vdc example_vdc (Some example_vmc) (Some example_vmc) = Inr True"
  by (simp add: NeedsNewControlPlaneTemplate_def with_host_def example_spec_def example_cluster_def)

text \<open>
  Claim C1, amended. For two specs with the same Kubernetes version, the same control
  plane endpoint host and the same bundle number, and machine and datacenter configs equal
  in the nine template-affecting fields, \<^verbatim>\<open>NeedsNewControlPlaneTemplate\<close> returns false.
\<close>

theorem NeedsNewControlPlaneTemplate_unchanged:
  assumes "KubernetesVersion (cluster_Spec (Cluster oldSpec))
             = KubernetesVersion (cluster_Spec (Cluster newSpec))"
      and "Host (Endpoint (ControlPlaneConfiguration (cluster_Spec (Cluster oldSpec))))
             = Host (Endpoint (ControlPlaneConfiguration (cluster_Spec (Cluster newSpec))))"
      and "Number (bundles_Spec (Bundles oldSpec)) = Number (bundles_Spec (Bundles newSpec))"
      and "NumCPUs (vmc_Spec oldVmc) = NumCPUs (vmc_Spec newVmc)"
      and "MemoryMiB (vmc_Spec oldVmc) = MemoryMiB (vmc_Spec newVmc)"
      and "DiskGiB (vmc_Spec oldVmc) = DiskGiB (vmc_Spec newVmc)"
      and "Datastore (vmc_Spec oldVmc) = Datastore (vmc_Spec newVmc)"
      and "Folder (vmc_Spec oldVmc) = Folder (vmc_Spec newVmc)"
      and "ResourcePool (vmc_Spec oldVmc) = ResourcePool (vmc_Spec newVmc)"
      and "Template (vmc_Spec oldVmc) = Template (vmc_Spec newVmc)"
      and "Network (vdc_Spec oldVdc) = Network (vdc_Spec newVdc)"
      and "Thumbprint (vdc_Spec oldVdc) = Thumbprint (vdc_Spec newVdc)"
  shows "NeedsNewControlPlaneTemplate oldSpec newSpec oldVdc newVdc (Some oldVmc) (Some newVmc)
           = Inr False"
  using assms by (simp add: NeedsNewControlPlaneTemplate_def AnyImmutableFieldChanged_def)

text \<open>On the concrete cluster, with a new server and a new storage policy.\<close>

theorem NeedsNewControlPlaneTemplate_unchanged_witness:
  "NeedsNewControlPlaneTemplate example_spec
      (with_datacenter_spec (\<lambda>d. d\<lparr>Server := ''vcenter2.example.com''\<rparr>) example_spec)
      example_vdc (example_vdc\<lparr>vdc_Spec := (vdc_Spec example_vdc)\<lparr>Server := ''vcenter2.example.com''\<rparr>\<rparr>)
      (Some example_vmc)
      (Some (example_vmc\<lparr>vmc_Spec := (vmc_Spec example_vmc)\<lparr>StoragePolicyName := ''gold''\<rparr>\<rparr>))
    = Inr False"
  by (rule NeedsNewControlPlaneTemplate_unchanged)
     (simp_all add: with_datacenter_spec_def example_vdc_def)

text \<open>
  Claim C5. When the old spec has Kubernetes version 1.23 and the new one 1.24,
  \<^verbatim>\<open>NeedsNewControlPlaneTemplate\<close>, \<^verbatim>\<open>NeedsNewWorkloadTemplate\<close> and
  \<^verbatim>\<open>NeedsNewEtcdTemplate\<close> all return true. The version is compared first, so nothing else
  in the specs or configs matters, equal or not.
\<close>

theorem kubernetes_version_change_needs_new_templates:
  assumes "KubernetesVersion (cluster_Spec (Cluster oldSpec)) = ''1.23''"
      and "KubernetesVersion (cluster_Spec (Cluster newSpec)) = ''1.24''"
  shows "NeedsNewControlPlaneTemplate oldSpec newSpec oldVdc newVdc oldVmc newVmc = Inr True
       \<and> NeedsNewWorkloadTemplate api oldSpec newSpec oldVdc newVdc oldVmc newVmc = Inr True
       \<and> NeedsNewEtcdTemplate oldSpec newSpec oldVdc newVdc oldVmc newVmc = Inr True"
  using assms
  by (simp add: NeedsNewControlPlaneTemplate_def NeedsNewWorkloadTemplate_def
        NeedsNewEtcdTemplate_def)

text \<open>The concrete spec against itself with version 1.24, all else equal.\<close>

theorem kubernetes_version_change_needs_new_templates_witness:
  "NeedsNewControlPlaneTemplate example_spec (with_version ''1.24'' example_spec)
       example_vdc example_vdc (Some example_vmc) (Some example_vmc) = Inr True
   \<and> NeedsNewWorkloadTemplate example_api example_spec (with_version ''1.24'' example_spec)
       example_vdc example_vdc (Some example_vmc) (Some example_vmc) = Inr True
   \<and> NeedsNewEtcdTemplate example_spec (with_version ''1.24'' example_spec)
       example_vdc example_vdc (Some example_vmc) (Some example_vmc) = Inr True"
  by (rule kubernetes_version_change_needs_new_templates)
     (simp_all add: with_version_def example_spec_def example_cluster_def)

text \<open>
  Claim C4. For a worker node group whose name is not a key of the index of the previous
  groups, \<^verbatim>\<open>needsNewMachineTemplate\<close> and \<^verbatim>\<open>needsNewKubeadmConfigTemplate\<close> both return
  true, whatever the specs, the datacenter config and the machine configs are.
\<close>

theorem new_worker_group_needs_new_templates:
  assumes "prevWorkerNodeGroupConfigs (wng_Name workerNodeGroupConfiguration) = None"
  shows "needsNewMachineTemplate api currentSpec newClusterSpec workerNodeGroupConfiguration vdc
           prevWorkerNodeGroupConfigs oldWorkerMachineConfig newWorkerMachineConfig = Inr True
       \<and> needsNewKubeadmConfigTemplate api workerNodeGroupConfiguration
           prevWorkerNodeGroupConfigs oldWorkerMachineConfig newWorkerMachineConfig = Inr True"
  using assms by (simp add: needsNewMachineTemplate_def needsNewKubeadmConfigTemplate_def)

text \<open>
  The group \<open>md-1\<close> is not in the index built from the concrete spec, whose only group is
  \<open>md-0\<close>.
\<close>

theorem new_worker_group_needs_new_templates_witness:
  "BuildMapForWorkerNodeGroupsByName
       (WorkerNodeGroupConfigurations (cluster_Spec (Cluster example_spec)))
       (wng_Name (example_group\<lparr>wng_Name := ''md-1''\<rparr>)) = None
   \<and> needsNewMachineTemplate example_api example_spec example_spec
       (example_group\<lparr>wng_Name := ''md-1''\<rparr>) example_vdc
       (BuildMapForWorkerNodeGroupsByName
          (WorkerNodeGroupConfigurations (cluster_Spec (Cluster example_spec))))
       None None = Inr True
   \<and> needsNewKubeadmConfigTemplate example_api (example_group\<lparr>wng_Name := ''md-1''\<rparr>)
       (BuildMapForWorkerNodeGroupsByName
          (WorkerNodeGroupConfigurations (cluster_Spec (Cluster example_spec))))
       None None = Inr True"
proof -
  have absent: "BuildMapForWorkerNodeGroupsByName
       (WorkerNodeGroupConfigurations (cluster_Spec (Cluster example_spec)))
       (wng_Name (example_group\<lparr>wng_Name := ''md-1''\<rparr>)) = None"
    by (simp add: BuildMapForWorkerNodeGroupsByName_def example_spec_def example_cluster_def
          example_group_def)
  show ?thesis
    using absent
      new_worker_group_needs_new_templates
        [where prevWorkerNodeGroupConfigs = "BuildMapForWorkerNodeGroupsByName
            (WorkerNodeGroupConfigurations (cluster_Spec (Cluster example_spec)))"
         and workerNodeGroupConfiguration = "example_group\<lparr>wng_Name := ''md-1''\<rparr>",
         OF absent]
    by simp
qed

lemma sublist_second: "sublist x (a @ x @ b)"
  by simp

lemma sublist_fourth: "sublist x (a @ b @ c @ x)"
  unfolding sublist_def by (rule exI [of _ "a @ b @ c"], rule exI [of _ "[]"]) simp

lemma sublist_fourth_of_five: "sublist x (a @ b @ c @ x @ d)"
  unfolding sublist_def by (rule exI [of _ "a @ b @ c"], rule exI [of _ d]) simp

lemma example_refs_pass:
  "validateMachineConfigRefs example_provider example_workload
      (with_datacenter_spec f example_spec)
      (machineRefSliceToMap (MachineConfigRefs example_api example_cluster))
      (MachineConfigRefs example_api (Cluster (with_datacenter_spec f example_spec))) = None"
  by (simp add: with_datacenter_spec_def example_spec_def example_cluster_def example_api_def
        example_group_def example_ref_def example_vmc_def machineRefSliceToMap_def
        validateMachineConfigImmutability_def example_provider_def NewProviderCustomNet_def
        example_client_def)

text \<open>
  Claim C6 says of the datacenter name what it says of the server: a changed name gives
  an error with the old and the new name. \<^verbatim>\<open>ValidateNewSpec\<close> checks server, datacenter
  name and network in this order and returns at the first difference (lines 879-888):
  when server and datacenter name both changed, the error is the one of the server and
  contains neither datacenter name.
\<close>

theorem ValidateNewSpec_datacenter_name_counterexample:
  "Datacenter (vdc_Spec (VSphereDatacenter example_moved_spec))
     \<noteq> Datacenter (vdc_Spec example_vdc)
   \<and> ValidateNewSpec example_api example_provider Map.empty example_workload example_moved_spec
     = Some (Err ''spec.server is immutable. Previous value vcenter.example.com, new value vcenter2.example.com'')
   \<and> \<not> sublist ''SDDC-Datacenter''
         ''spec.server is immutable. Previous value vcenter.example.com, new value vcenter2.example.com''
   \<and> \<not> sublist ''Other-Datacenter''
         ''spec.server is immutable. Previous value vcenter.example.com, new value vcenter2.example.com''"
proof -
  have changed: "Datacenter (vdc_Spec (VSphereDatacenter example_moved_spec))
     \<noteq> Datacenter (vdc_Spec example_vdc)"
    by (simp add: example_moved_spec_def with_datacenter_spec_def example_spec_def
          example_vdc_def)
  have refs: "validateMachineConfigRefs example_provider example_workload example_moved_spec
      (machineRefSliceToMap (MachineConfigRefs example_api example_cluster))
      (MachineConfigRefs example_api (Cluster example_moved_spec)) = None"
    unfolding example_moved_spec_def by (rule example_refs_pass)
  have result: "ValidateNewSpec example_api example_provider Map.empty example_workload
      example_moved_spec
     = Some (Err ''spec.server is immutable. Previous value vcenter.example.com, new value vcenter2.example.com'')"
    using refs
    by (simp add: ValidateNewSpec_def Let_def example_provider_def NewProviderCustomNet_def
          example_client_def example_moved_spec_def with_datacenter_spec_def example_spec_def
          example_cluster_def example_vdc_def)
  have old: "\<not> sublist ''SDDC-Datacenter''
         ''spec.server is immutable. Previous value vcenter.example.com, new value vcenter2.example.com''"
    by code_simp
  have new: "\<not> sublist ''Other-Datacenter''
         ''spec.server is immutable. Previous value vcenter.example.com, new value vcenter2.example.com''"
    by code_simp
  from changed result old new show ?thesis by blast
qed

text \<open>
  Claim C6, amended. Let the client return the applied cluster and its datacenter config,
  and let the checks of the machine configs pass. If the new datacenter config has another
  server than the applied one, \<^verbatim>\<open>ValidateNewSpec\<close> returns an error whose message contains
  the previous server and the new server. If the server is unchanged and the datacenter
  name differs, the message contains the previous and the new datacenter name. If server
  and datacenter name are unchanged and the network differs, the message contains the
  previous and the new network.
\<close>

theorem ValidateNewSpec_datacenter_immutable:
  assumes "GetEksaCluster (providerKubectlClient p) cluster (cluster_Name (Cluster clusterSpec))
             = Inr prevSpec"
      and "GetEksaVSphereDatacenterConfig (providerKubectlClient p)
             (ref_Name (DatacenterRef (cluster_Spec prevSpec))) (KubeconfigFile cluster)
             (cluster_Namespace prevSpec) = Inr prevDatacenter"
      and "validateMachineConfigRefs p cluster clusterSpec
             (machineRefSliceToMap (MachineConfigRefs api prevSpec))
             (MachineConfigRefs api (Cluster clusterSpec)) = None"
  shows "(Server (vdc_Spec (VSphereDatacenter clusterSpec)) \<noteq> Server (vdc_Spec prevDatacenter) \<longrightarrow>
            (\<exists>msg. ValidateNewSpec api p env cluster clusterSpec = Some (Err msg)
               \<and> sublist (Server (vdc_Spec prevDatacenter)) msg
               \<and> sublist (Server (vdc_Spec (VSphereDatacenter clusterSpec))) msg))
       \<and> (Server (vdc_Spec (VSphereDatacenter clusterSpec)) = Server (vdc_Spec prevDatacenter)
          \<and> Datacenter (vdc_Spec (VSphereDatacenter clusterSpec)) \<noteq> Datacenter (vdc_Spec prevDatacenter) \<longrightarrow>
            (\<exists>msg. ValidateNewSpec api p env cluster clusterSpec = Some (Err msg)
               \<and> sublist (Datacenter (vdc_Spec prevDatacenter)) msg
               \<and> sublist (Datacenter (vdc_Spec (VSphereDatacenter clusterSpec))) msg))
       \<and> (Server (vdc_Spec (VSphereDatacenter clusterSpec)) = Server (vdc_Spec prevDatacenter)
          \<and> Datacenter (vdc_Spec (VSphereDatacenter clusterSpec)) = Datacenter (vdc_Spec prevDatacenter)
          \<and> Network (vdc_Spec (VSphereDatacenter clusterSpec)) \<noteq> Network (vdc_Spec prevDatacenter) \<longrightarrow>
            (\<exists>msg. ValidateNewSpec api p env cluster clusterSpec = Some (Err msg)
               \<and> sublist (Network (vdc_Spec prevDatacenter)) msg
               \<and> sublist (Network (vdc_Spec (VSphereDatacenter clusterSpec))) msg))"
proof (intro conjI impI)
  assume "Server (vdc_Spec (VSphereDatacenter clusterSpec)) \<noteq> Server (vdc_Spec prevDatacenter)"
  with assms have "ValidateNewSpec api p env cluster clusterSpec =
      Some (Err (''spec.server is immutable. Previous value '' @ Server (vdc_Spec prevDatacenter)
        @ '', new value '' @ Server (vdc_Spec (VSphereDatacenter clusterSpec))))"
    by (simp add: ValidateNewSpec_def Let_def del: append.simps)
  then show "\<exists>msg. ValidateNewSpec api p env cluster clusterSpec = Some (Err msg)
      \<and> sublist (Server (vdc_Spec prevDatacenter)) msg
      \<and> sublist (Server (vdc_Spec (VSphereDatacenter clusterSpec))) msg"
    using sublist_second sublist_fourth by blast
next
  assume "Server (vdc_Spec (VSphereDatacenter clusterSpec)) = Server (vdc_Spec prevDatacenter)
    \<and> Datacenter (vdc_Spec (VSphereDatacenter clusterSpec)) \<noteq> Datacenter (vdc_Spec prevDatacenter)"
  with assms have "ValidateNewSpec api p env cluster clusterSpec =
      Some (Err (''spec.datacenter is immutable. Previous value ''
        @ Datacenter (vdc_Spec prevDatacenter)
        @ '', new value '' @ Datacenter (vdc_Spec (VSphereDatacenter clusterSpec))))"
    by (simp add: ValidateNewSpec_def Let_def del: append.simps)
  then show "\<exists>msg. ValidateNewSpec api p env cluster clusterSpec = Some (Err msg)
      \<and> sublist (Datacenter (vdc_Spec prevDatacenter)) msg
      \<and> sublist (Datacenter (vdc_Spec (VSphereDatacenter clusterSpec))) msg"
    using sublist_second sublist_fourth by blast
next
  assume "Server (vdc_Spec (VSphereDatacenter clusterSpec)) = Server (vdc_Spec prevDatacenter)
    \<and> Datacenter (vdc_Spec (VSphereDatacenter clusterSpec)) = Datacenter (vdc_Spec prevDatacenter)
    \<and> Network (vdc_Spec (VSphereDatacenter clusterSpec)) \<noteq> Network (vdc_Spec prevDatacenter)"
  with assms have "ValidateNewSpec api p env cluster clusterSpec =
      Some (Err (''spec.network is immutable. Previous value '' @ Network (vdc_Spec prevDatacenter)
        @ '', new value '' @ Network (vdc_Spec (VSphereDatacenter clusterSpec))))"
    by (simp add: ValidateNewSpec_def Let_def del: append.simps)
  then show "\<exists>msg. ValidateNewSpec api p env cluster clusterSpec = Some (Err msg)
      \<and> sublist (Network (vdc_Spec prevDatacenter)) msg
      \<and> sublist (Network (vdc_Spec (VSphereDatacenter clusterSpec))) msg"
    using sublist_second sublist_fourth by blast
qed

text \<open>The concrete cluster with a new server, a new datacenter name, a new network.\<close>

theorem ValidateNewSpec_datacenter_immutable_witness:
  "(\<exists>msg. ValidateNewSpec example_api example_provider Map.empty example_workload
       (with_datacenter_spec (\<lambda>d. d\<lparr>Server := ''vcenter2.example.com''\<rparr>) example_spec)
         = Some (Err msg)
      \<and> sublist ''vcenter.example.com'' msg \<and> sublist ''vcenter2.example.com'' msg)
   \<and> (\<exists>msg. ValidateNewSpec example_api example_provider Map.empty example_workload
       (with_datacenter_spec (\<lambda>d. d\<lparr>Datacenter := ''Other-Datacenter''\<rparr>) example_spec)
         = Some (Err msg)
      \<and> sublist ''SDDC-Datacenter'' msg \<and> sublist ''Other-Datacenter'' msg)
   \<and> (\<exists>msg. ValidateNewSpec example_api example_provider Map.empty example_workload
       (with_datacenter_spec (\<lambda>d. d\<lparr>Network := ''/net/other''\<rparr>) example_spec)
         = Some (Err msg)
      \<and> sublist ''/net/vm-network'' msg \<and> sublist ''/net/other'' msg)"
proof -
  have c: "\<And>f. GetEksaCluster (providerKubectlClient example_provider) example_workload
             (cluster_Name (Cluster (with_datacenter_spec f example_spec))) = Inr example_cluster"
    by (simp add: example_provider_def NewProviderCustomNet_def example_client_def
          with_datacenter_spec_def example_spec_def example_cluster_def)
  have d: "GetEksaVSphereDatacenterConfig (providerKubectlClient example_provider)
             (ref_Name (DatacenterRef (cluster_Spec example_cluster)))
             (KubeconfigFile example_workload) (cluster_Namespace example_cluster) = Inr example_vdc"
    by (simp add: example_provider_def NewProviderCustomNet_def example_client_def
          example_cluster_def)
  show ?thesis
    using ValidateNewSpec_datacenter_immutable [OF c d example_refs_pass,
            of "\<lambda>d. d\<lparr>Server := ''vcenter2.example.com''\<rparr>" Map.empty]
          ValidateNewSpec_datacenter_immutable [OF c d example_refs_pass,
            of "\<lambda>d. d\<lparr>Datacenter := ''Other-Datacenter''\<rparr>" Map.empty]
          ValidateNewSpec_datacenter_immutable [OF c d example_refs_pass,
            of "\<lambda>d. d\<lparr>Network := ''/net/other''\<rparr>" Map.empty]
    by (simp add: with_datacenter_spec_def example_spec_def example_vdc_def)
qed

text \<open>
  Claim C7. Let the checks of the machine configs and of the datacenter config pass and
  let the client return the credentials secret. If the username or the password of the
  secret differs from the value of its environment variable, \<^verbatim>\<open>ValidateNewSpec\<close> returns
  an error whose message names \<^verbatim>\<open>VSPHERE_PASSWORD\<close> and \<^verbatim>\<open>VSPHERE_USERNAME\<close>.
\<close>

theorem ValidateNewSpec_credential_drift:
  assumes "GetEksaCluster (providerKubectlClient p) cluster (cluster_Name (Cluster clusterSpec))
             = Inr prevSpec"
      and "GetEksaVSphereDatacenterConfig (providerKubectlClient p)
             (ref_Name (DatacenterRef (cluster_Spec prevSpec))) (KubeconfigFile cluster)
             (cluster_Namespace prevSpec) = Inr prevDatacenter"
      and "validateMachineConfigRefs p cluster clusterSpec
             (machineRefSliceToMap (MachineConfigRefs api prevSpec))
             (MachineConfigRefs api (Cluster clusterSpec)) = None"
      and "Server (vdc_Spec (VSphereDatacenter clusterSpec)) = Server (vdc_Spec prevDatacenter)"
      and "Datacenter (vdc_Spec (VSphereDatacenter clusterSpec)) = Datacenter (vdc_Spec prevDatacenter)"
      and "Network (vdc_Spec (VSphereDatacenter clusterSpec)) = Network (vdc_Spec prevDatacenter)"
      and "GetSecretFromNamespace (providerKubectlClient p) (KubeconfigFile cluster)
             CredentialsObjectName EksaSystemNamespace = Inr oSecret"
      and "secretString oSecret ''username'' \<noteq> Getenv env ''VSPHERE_USERNAME''
           \<or> secretString oSecret ''password'' \<noteq> Getenv env ''VSPHERE_PASSWORD''"
  shows "\<exists>msg. ValidateNewSpec api p env cluster clusterSpec = Some (Err msg)
           \<and> sublist ''VSPHERE_PASSWORD'' msg \<and> sublist ''VSPHERE_USERNAME'' msg"
proof -
  have changed: "secretContentsChanged p env cluster = Inr True"
    using assms(7,8)
    by (auto simp add: secretContentsChanged_def Let_def vSpherePasswordKey_def
          vSphereUsernameKey_def)
  have "ValidateNewSpec api p env cluster clusterSpec =
          Some (Err (''the VSphere credentials derived from '' @ vSpherePasswordKey
                  @ '' and '' @ vSphereUsernameKey
                  @ '' are immutable; please use the same credentials for the upgraded cluster''))"
    using assms(1-6) changed by (simp add: ValidateNewSpec_def Let_def del: append.simps)
  moreover have "sublist ''VSPHERE_PASSWORD'' (''the VSphere credentials derived from ''
        @ vSpherePasswordKey @ '' and '' @ vSphereUsernameKey
        @ '' are immutable; please use the same credentials for the upgraded cluster'')"
    unfolding vSpherePasswordKey_def by (rule sublist_second)
  moreover have "sublist ''VSPHERE_USERNAME'' (''the VSphere credentials derived from ''
        @ vSpherePasswordKey @ '' and '' @ vSphereUsernameKey
        @ '' are immutable; please use the same credentials for the upgraded cluster'')"
    unfolding vSphereUsernameKey_def by (rule sublist_fourth_of_five)
  ultimately show ?thesis by blast
qed

text \<open>The secret of the concrete cluster has username A; the environment says B.\<close>

theorem ValidateNewSpec_credential_drift_witness:
  "secretString \<lparr>Data = [''username'' \<mapsto> ''A'', ''password'' \<mapsto> ''pw'']\<rparr> ''username''
      \<noteq> Getenv [''VSPHERE_USERNAME'' \<mapsto> ''B'', ''VSPHERE_PASSWORD'' \<mapsto> ''pw''] ''VSPHERE_USERNAME''
   \<and> (\<exists>msg. ValidateNewSpec example_api example_provider
         [''VSPHERE_USERNAME'' \<mapsto> ''B'', ''VSPHERE_PASSWORD'' \<mapsto> ''pw''] example_workload
         example_spec = Some (Err msg)
       \<and> sublist ''VSPHERE_PASSWORD'' msg \<and> sublist ''VSPHERE_USERNAME'' msg)"
proof -
  have c: "GetEksaCluster (providerKubectlClient example_provider) example_workload
             (cluster_Name (Cluster example_spec)) = Inr example_cluster"
    by (simp add: example_provider_def NewProviderCustomNet_def example_client_def
          example_spec_def example_cluster_def)
  have d: "GetEksaVSphereDatacenterConfig (providerKubectlClient example_provider)
             (ref_Name (DatacenterRef (cluster_Spec example_cluster)))
             (KubeconfigFile example_workload) (cluster_Namespace example_cluster) = Inr example_vdc"
    by (simp add: example_provider_def NewProviderCustomNet_def example_client_def
          example_cluster_def)
  have r: "validateMachineConfigRefs example_provider example_workload example_spec
      (machineRefSliceToMap (MachineConfigRefs example_api example_cluster))
      (MachineConfigRefs example_api (Cluster example_spec)) = None"
    using example_refs_pass [of "\<lambda>d. d"] by (simp add: with_datacenter_spec_def)
  have s: "GetSecretFromNamespace (providerKubectlClient example_provider)
             (KubeconfigFile example_workload) CredentialsObjectName EksaSystemNamespace
           = Inr \<lparr>Data = [''username'' \<mapsto> ''A'', ''password'' \<mapsto> ''pw'']\<rparr>"
    by (simp add: example_provider_def NewProviderCustomNet_def example_client_def)
  have drift: "secretString \<lparr>Data = [''username'' \<mapsto> ''A'', ''password'' \<mapsto> ''pw'']\<rparr> ''username''
      \<noteq> Getenv [''VSPHERE_USERNAME'' \<mapsto> ''B'', ''VSPHERE_PASSWORD'' \<mapsto> ''pw''] ''VSPHERE_USERNAME''"
    by (simp add: secretString_def Getenv_def)
  have eqs: "Server (vdc_Spec (VSphereDatacenter example_spec)) = Server (vdc_Spec example_vdc)"
    "Datacenter (vdc_Spec (VSphereDatacenter example_spec)) = Datacenter (vdc_Spec example_vdc)"
    "Network (vdc_Spec (VSphereDatacenter example_spec)) = Network (vdc_Spec example_vdc)"
    by (simp_all add: example_spec_def)
  show ?thesis
    using drift
      ValidateNewSpec_credential_drift [OF c d r eqs s disjI1 [OF drift]]
    by simp
qed

section \<open>Whether an upgrade is needed: theorems\<close>

lemma machineConfigsSpecChangedLoop_iff:
  assumes "\<forall>ref \<in> set refs. \<exists>vmc. GetEksaVSphereMachineConfig (providerKubectlClient p)
             (ref_Name ref) (KubeconfigFile cluster) (cluster_Namespace (Cluster newSpec)) = Inr vmc"
  shows "machineConfigsSpecChangedLoop p cluster newSpec refs =
     Inr (\<exists>ref \<in> set refs. \<exists>existingVmc.
            GetEksaVSphereMachineConfig (providerKubectlClient p) (ref_Name ref)
              (KubeconfigFile cluster) (cluster_Namespace (Cluster newSpec)) = Inr existingVmc
            \<and> (case VSphereMachineConfigs newSpec (ref_Name ref) of
                 None \<Rightarrow> True
               | Some csmc \<Rightarrow> vmc_Spec existingVmc \<noteq> vmc_Spec csmc))"
  using assms
proof (induction refs)
  case Nil
  then show ?case by simp
next
  case (Cons ref refs)
  then obtain vmc where vmc: "GetEksaVSphereMachineConfig (providerKubectlClient p)
             (ref_Name ref) (KubeconfigFile cluster) (cluster_Namespace (Cluster newSpec)) = Inr vmc"
    by auto
  from Cons have IH: "machineConfigsSpecChangedLoop p cluster newSpec refs =
     Inr (\<exists>ref \<in> set refs. \<exists>existingVmc.
            GetEksaVSphereMachineConfig (providerKubectlClient p) (ref_Name ref)
              (KubeconfigFile cluster) (cluster_Namespace (Cluster newSpec)) = Inr existingVmc
            \<and> (case VSphereMachineConfigs newSpec (ref_Name ref) of
                 None \<Rightarrow> True
               | Some csmc \<Rightarrow> vmc_Spec existingVmc \<noteq> vmc_Spec csmc))"
    by simp
  show ?case
    using vmc IH by (auto split: option.splits)
qed

lemma machineConfigsSpecChangedLoop_first_difference:
  assumes "\<forall>r \<in> set before. \<exists>vmc. GetEksaVSphereMachineConfig (providerKubectlClient p) (ref_Name r)
              (KubeconfigFile cluster) (cluster_Namespace (Cluster newSpec)) = Inr vmc"
      and "GetEksaVSphereMachineConfig (providerKubectlClient p) (ref_Name ref)
              (KubeconfigFile cluster) (cluster_Namespace (Cluster newSpec)) = Inr existingVmc"
      and "(case VSphereMachineConfigs newSpec (ref_Name ref) of
                 None \<Rightarrow> True
               | Some csmc \<Rightarrow> vmc_Spec existingVmc \<noteq> vmc_Spec csmc)"
  shows "machineConfigsSpecChangedLoop p cluster newSpec (before @ ref # after) = Inr True"
  using assms(1)
proof (induction before)
  case Nil
  show ?case using assms(2,3) by (auto split: option.splits)
next
  case (Cons r before)
  then obtain vmc where vmc: "GetEksaVSphereMachineConfig (providerKubectlClient p) (ref_Name r)
              (KubeconfigFile cluster) (cluster_Namespace (Cluster newSpec)) = Inr vmc"
    by auto
  from Cons have IH: "machineConfigsSpecChangedLoop p cluster newSpec (before @ ref # after)
      = Inr True"
    by simp
  show ?case using vmc IH by (auto split: option.splits)
qed

text \<open>
  Claim C8 says that a change of any pinned component image digest makes an upgrade
  needed. \<^verbatim>\<open>UpgradeNeeded\<close> reads four digests, all of the vSphere bundle (lines 991-994):
  with the applied datacenter and machine configs equal to the new ones, another digest
  for the Cilium image, which the same versions bundle pins, gives false.
\<close>

theorem UpgradeNeeded_other_digest_counterexample:
  "ImageDigest (cilium_Cilium (Cilium (VersionsBundle (with_cilium_digest ''sha256:c2'' example_spec))))
     \<noteq> ImageDigest (cilium_Cilium (Cilium (VersionsBundle example_spec)))
   \<and> UpgradeNeeded example_api example_provider (with_cilium_digest ''sha256:c2'' example_spec)
       example_spec example_workload = Inr False"
  by (simp add: UpgradeNeeded_def machineConfigsSpecChanged_def Let_def with_cilium_digest_def
        example_spec_def example_versions_bundle_def example_cluster_def example_api_def
        example_group_def example_ref_def example_provider_def NewProviderCustomNet_def
        example_client_def)

text \<open>
  Claim C8, amended. \<^verbatim>\<open>UpgradeNeeded\<close> returns true
  \<^item> when the image digest of the driver, the syncer, the manager or kube-vip in the
    vSphere bundle differs between the new and the current spec (the digests pinned for
    other components are not read);
  \<^item> when the client returns the applied datacenter config and its spec differs from the
    new one;
  \<^item> when the client returns the applied datacenter config and, going through the machine
    config references of the current cluster in order, returns every applied machine
    config up to one that has no counterpart of its name in the new spec or differs from it
    in its spec.

  When the client returns the applied datacenter config and the applied machine config of
  every reference, the result is true if one of these holds and false if none does.
\<close>

theorem UpgradeNeeded_iff:
  "(ImageDigest (Driver (VSphere (VersionsBundle newSpec)))
       \<noteq> ImageDigest (Driver (VSphere (VersionsBundle currentSpec)))
    \<or> ImageDigest (Syncer (VSphere (VersionsBundle newSpec)))
       \<noteq> ImageDigest (Syncer (VSphere (VersionsBundle currentSpec)))
    \<or> ImageDigest (Manager (VSphere (VersionsBundle newSpec)))
       \<noteq> ImageDigest (Manager (VSphere (VersionsBundle currentSpec)))
    \<or> ImageDigest (KubeVip (VSphere (VersionsBundle newSpec)))
       \<noteq> ImageDigest (KubeVip (VSphere (VersionsBundle currentSpec)))
    \<longrightarrow> UpgradeNeeded api p newSpec currentSpec cluster = Inr True)
   \<and> (GetEksaVSphereDatacenterConfig (providerKubectlClient p)
         (ref_Name (DatacenterRef (cluster_Spec (Cluster currentSpec)))) (KubeconfigFile cluster)
         (cluster_Namespace (Cluster newSpec)) = Inr existingVdc
       \<and> vdc_Spec existingVdc \<noteq> vdc_Spec (VSphereDatacenter newSpec)
      \<longrightarrow> UpgradeNeeded api p newSpec currentSpec cluster = Inr True)
   \<and> (GetEksaVSphereDatacenterConfig (providerKubectlClient p)
         (ref_Name (DatacenterRef (cluster_Spec (Cluster currentSpec)))) (KubeconfigFile cluster)
         (cluster_Namespace (Cluster newSpec)) = Inr existingVdc
       \<and> (\<exists>before ref after existingVmc.
             MachineConfigRefs api (Cluster currentSpec) = before @ ref # after
             \<and> (\<forall>r \<in> set before. \<exists>vmc. GetEksaVSphereMachineConfig (providerKubectlClient p) (ref_Name r)
              (KubeconfigFile cluster) (cluster_Namespace (Cluster newSpec)) = Inr vmc)
             \<and> GetEksaVSphereMachineConfig (providerKubectlClient p) (ref_Name ref)
              (KubeconfigFile cluster) (cluster_Namespace (Cluster newSpec)) = Inr existingVmc
             \<and> (case VSphereMachineConfigs newSpec (ref_Name ref) of
                 None \<Rightarrow> True
               | Some csmc \<Rightarrow> vmc_Spec existingVmc \<noteq> vmc_Spec csmc))
      \<longrightarrow> UpgradeNeeded api p newSpec currentSpec cluster = Inr True)
   \<and> (GetEksaVSphereDatacenterConfig (providerKubectlClient p)
         (ref_Name (DatacenterRef (cluster_Spec (Cluster currentSpec)))) (KubeconfigFile cluster)
         (cluster_Namespace (Cluster newSpec)) = Inr existingVdc
       \<and> (\<forall>ref \<in> set (MachineConfigRefs api (Cluster currentSpec)). \<exists>vmc.
            GetEksaVSphereMachineConfig (providerKubectlClient p) (ref_Name ref)
              (KubeconfigFile cluster) (cluster_Namespace (Cluster newSpec)) = Inr vmc)
      \<longrightarrow> UpgradeNeeded api p newSpec currentSpec cluster =
            Inr ((ImageDigest (Driver (VSphere (VersionsBundle newSpec)))
       \<noteq> ImageDigest (Driver (VSphere (VersionsBundle currentSpec)))
    \<or> ImageDigest (Syncer (VSphere (VersionsBundle newSpec)))
       \<noteq> ImageDigest (Syncer (VSphere (VersionsBundle currentSpec)))
    \<or> ImageDigest (Manager (VSphere (VersionsBundle newSpec)))
       \<noteq> ImageDigest (Manager (VSphere (VersionsBundle currentSpec)))
    \<or> ImageDigest (KubeVip (VSphere (VersionsBundle newSpec)))
       \<noteq> ImageDigest (KubeVip (VSphere (VersionsBundle currentSpec))))
               \<or> vdc_Spec existingVdc \<noteq> vdc_Spec (VSphereDatacenter newSpec)
               \<or> (\<exists>ref \<in> set (MachineConfigRefs api (Cluster currentSpec)). \<exists>existingVmc.
                     GetEksaVSphereMachineConfig (providerKubectlClient p) (ref_Name ref)
              (KubeconfigFile cluster) (cluster_Namespace (Cluster newSpec))
                       = Inr existingVmc
                     \<and> (case VSphereMachineConfigs newSpec (ref_Name ref) of
                 None \<Rightarrow> True
               | Some csmc \<Rightarrow> vmc_Spec existingVmc \<noteq> vmc_Spec csmc))))"
proof (intro conjI impI)
  assume "ImageDigest (Driver (VSphere (VersionsBundle newSpec)))
       \<noteq> ImageDigest (Driver (VSphere (VersionsBundle currentSpec)))
    \<or> ImageDigest (Syncer (VSphere (VersionsBundle newSpec)))
       \<noteq> ImageDigest (Syncer (VSphere (VersionsBundle currentSpec)))
    \<or> ImageDigest (Manager (VSphere (VersionsBundle newSpec)))
       \<noteq> ImageDigest (Manager (VSphere (VersionsBundle currentSpec)))
    \<or> ImageDigest (KubeVip (VSphere (VersionsBundle newSpec)))
       \<noteq> ImageDigest (KubeVip (VSphere (VersionsBundle currentSpec)))"
  then show "UpgradeNeeded api p newSpec currentSpec cluster = Inr True"
    by (simp add: UpgradeNeeded_def Let_def)
next
  assume "GetEksaVSphereDatacenterConfig (providerKubectlClient p)
         (ref_Name (DatacenterRef (cluster_Spec (Cluster currentSpec)))) (KubeconfigFile cluster)
         (cluster_Namespace (Cluster newSpec)) = Inr existingVdc
       \<and> vdc_Spec existingVdc \<noteq> vdc_Spec (VSphereDatacenter newSpec)"
  then show "UpgradeNeeded api p newSpec currentSpec cluster = Inr True"
    by (simp add: UpgradeNeeded_def Let_def)
next
  assume reads: "GetEksaVSphereDatacenterConfig (providerKubectlClient p)
         (ref_Name (DatacenterRef (cluster_Spec (Cluster currentSpec)))) (KubeconfigFile cluster)
         (cluster_Namespace (Cluster newSpec)) = Inr existingVdc
       \<and> (\<exists>before ref after existingVmc.
             MachineConfigRefs api (Cluster currentSpec) = before @ ref # after
             \<and> (\<forall>r \<in> set before. \<exists>vmc. GetEksaVSphereMachineConfig (providerKubectlClient p) (ref_Name r)
              (KubeconfigFile cluster) (cluster_Namespace (Cluster newSpec)) = Inr vmc)
             \<and> GetEksaVSphereMachineConfig (providerKubectlClient p) (ref_Name ref)
              (KubeconfigFile cluster) (cluster_Namespace (Cluster newSpec)) = Inr existingVmc
             \<and> (case VSphereMachineConfigs newSpec (ref_Name ref) of
                 None \<Rightarrow> True
               | Some csmc \<Rightarrow> vmc_Spec existingVmc \<noteq> vmc_Spec csmc))"
  then have "machineConfigsSpecChanged api p (Cluster currentSpec) cluster newSpec = Inr True"
    unfolding machineConfigsSpecChanged_def
    by (auto intro: machineConfigsSpecChangedLoop_first_difference)
  with reads show "UpgradeNeeded api p newSpec currentSpec cluster = Inr True"
    by (simp add: UpgradeNeeded_def Let_def)
next
  assume reads: "GetEksaVSphereDatacenterConfig (providerKubectlClient p)
         (ref_Name (DatacenterRef (cluster_Spec (Cluster currentSpec)))) (KubeconfigFile cluster)
         (cluster_Namespace (Cluster newSpec)) = Inr existingVdc
       \<and> (\<forall>ref \<in> set (MachineConfigRefs api (Cluster currentSpec)). \<exists>vmc.
            GetEksaVSphereMachineConfig (providerKubectlClient p) (ref_Name ref)
              (KubeconfigFile cluster) (cluster_Namespace (Cluster newSpec)) = Inr vmc)"
  then have loop: "machineConfigsSpecChanged api p (Cluster currentSpec) cluster newSpec =
     Inr (\<exists>ref \<in> set (MachineConfigRefs api (Cluster currentSpec)). \<exists>existingVmc.
                     GetEksaVSphereMachineConfig (providerKubectlClient p) (ref_Name ref)
              (KubeconfigFile cluster) (cluster_Namespace (Cluster newSpec))
                       = Inr existingVmc
                     \<and> (case VSphereMachineConfigs newSpec (ref_Name ref) of
                 None \<Rightarrow> True
               | Some csmc \<Rightarrow> vmc_Spec existingVmc \<noteq> vmc_Spec csmc))"
    unfolding machineConfigsSpecChanged_def by (intro machineConfigsSpecChangedLoop_iff) simp
  from reads have dc: "GetEksaVSphereDatacenterConfig (providerKubectlClient p)
         (ref_Name (DatacenterRef (cluster_Spec (Cluster currentSpec)))) (KubeconfigFile cluster)
         (cluster_Namespace (Cluster newSpec)) = Inr existingVdc" by simp
  show "UpgradeNeeded api p newSpec currentSpec cluster =
            Inr ((ImageDigest (Driver (VSphere (VersionsBundle newSpec)))
       \<noteq> ImageDigest (Driver (VSphere (VersionsBundle currentSpec)))
    \<or> ImageDigest (Syncer (VSphere (VersionsBundle newSpec)))
       \<noteq> ImageDigest (Syncer (VSphere (VersionsBundle currentSpec)))
    \<or> ImageDigest (Manager (VSphere (VersionsBundle newSpec)))
       \<noteq> ImageDigest (Manager (VSphere (VersionsBundle currentSpec)))
    \<or> ImageDigest (KubeVip (VSphere (VersionsBundle newSpec)))
       \<noteq> ImageDigest (KubeVip (VSphere (VersionsBundle currentSpec))))
               \<or> vdc_Spec existingVdc \<noteq> vdc_Spec (VSphereDatacenter newSpec)
               \<or> (\<exists>ref \<in> set (MachineConfigRefs api (Cluster currentSpec)). \<exists>existingVmc.
                     GetEksaVSphereMachineConfig (providerKubectlClient p) (ref_Name ref)
              (KubeconfigFile cluster) (cluster_Namespace (Cluster newSpec))
                       = Inr existingVmc
                     \<and> (case VSphereMachineConfigs newSpec (ref_Name ref) of
                 None \<Rightarrow> True
               | Some csmc \<Rightarrow> vmc_Spec existingVmc \<noteq> vmc_Spec csmc)))"
    unfolding UpgradeNeeded_def Let_def dc loop by auto
qed

text \<open>
  The concrete spec against itself needs no upgrade; more memory or a new kube-vip digest
  need one; a changed datacenter spec needs one even when no machine config can be read.
\<close>

theorem UpgradeNeeded_iff_witness:
  "UpgradeNeeded example_api example_provider example_spec example_spec example_workload
     = Inr False
   \<and> UpgradeNeeded example_api example_provider
       (with_machine_spec (\<lambda>m. m\<lparr>MemoryMiB := 16384\<rparr>) example_spec) example_spec
       example_workload = Inr True
   \<and> UpgradeNeeded example_api example_unreadable_provider example_moved_spec example_spec
       example_workload = Inr True
   \<and> UpgradeNeeded example_api example_provider
       (with_kube_vip_digest ''sha256:k2'' example_spec) example_spec
       example_workload = Inr True"
proof -
  have dc: "\<And>s. cluster_Namespace (Cluster s) = ''default'' \<Longrightarrow>
      GetEksaVSphereDatacenterConfig (providerKubectlClient example_provider)
         (ref_Name (DatacenterRef (cluster_Spec (Cluster example_spec))))
         (KubeconfigFile example_workload) (cluster_Namespace (Cluster s)) = Inr example_vdc"
    by (simp add: example_provider_def NewProviderCustomNet_def example_client_def
          example_spec_def example_cluster_def)
  have dc': "GetEksaVSphereDatacenterConfig (providerKubectlClient example_unreadable_provider)
         (ref_Name (DatacenterRef (cluster_Spec (Cluster example_spec))))
         (KubeconfigFile example_workload) (cluster_Namespace (Cluster example_moved_spec))
       = Inr example_vdc"
    by (simp add: example_unreadable_provider_def example_client_def
          example_spec_def example_cluster_def)
  have moved: "vdc_Spec example_vdc \<noteq> vdc_Spec (VSphereDatacenter example_moved_spec)"
    by (simp add: example_moved_spec_def with_datacenter_spec_def example_spec_def
          example_vdc_def)
  have mc: "\<And>s. \<forall>ref \<in> set (MachineConfigRefs example_api (Cluster example_spec)).
      GetEksaVSphereMachineConfig (providerKubectlClient example_provider) (ref_Name ref)
        (KubeconfigFile example_workload) (cluster_Namespace (Cluster s)) = Inr example_vmc"
    by (simp add: example_provider_def NewProviderCustomNet_def example_client_def
          example_spec_def example_cluster_def example_api_def example_group_def example_ref_def)
  have ns: "cluster_Namespace (Cluster example_spec) = ''default''"
    "\<And>f. cluster_Namespace (Cluster (with_machine_spec f example_spec)) = ''default''"
    by (simp_all add: example_spec_def example_cluster_def with_machine_spec_def)
  have refs: "set (MachineConfigRefs example_api (Cluster example_spec)) = {example_ref}"
    by (simp add: example_spec_def example_cluster_def example_api_def example_group_def)
  have 1: "UpgradeNeeded example_api example_provider example_spec example_spec example_workload
     = Inr False"
    using UpgradeNeeded_iff [where newSpec = example_spec and currentSpec = example_spec
        and api = example_api and p = example_provider and cluster = example_workload
        and existingVdc = example_vdc] dc [OF ns(1)] mc [of example_spec]
    by (simp add: refs) (simp add: example_spec_def example_ref_def)
  have 2: "UpgradeNeeded example_api example_provider
       (with_machine_spec (\<lambda>m. m\<lparr>MemoryMiB := 16384\<rparr>) example_spec) example_spec
       example_workload = Inr True"
    using UpgradeNeeded_iff
        [where newSpec = "with_machine_spec (\<lambda>m. m\<lparr>MemoryMiB := 16384\<rparr>) example_spec"
        and currentSpec = example_spec
        and api = example_api and p = example_provider and cluster = example_workload
        and existingVdc = example_vdc]
      dc [OF ns(2)] mc [of "with_machine_spec (\<lambda>m. m\<lparr>MemoryMiB := 16384\<rparr>) example_spec"]
    by (simp add: refs) (simp add: with_machine_spec_def example_ref_def example_vmc_def)
  have 3: "UpgradeNeeded example_api example_unreadable_provider example_moved_spec
       example_spec example_workload = Inr True"
    using UpgradeNeeded_iff [where newSpec = example_moved_spec and currentSpec = example_spec
        and api = example_api and p = example_unreadable_provider
        and cluster = example_workload and existingVdc = example_vdc] dc' moved
    by blast
  have 4: "UpgradeNeeded example_api example_provider
       (with_kube_vip_digest ''sha256:k2'' example_spec) example_spec
       example_workload = Inr True"
    using UpgradeNeeded_iff [where newSpec = "with_kube_vip_digest ''sha256:k2'' example_spec"
        and currentSpec = example_spec
        and api = example_api and p = example_provider and cluster = example_workload]
    by (simp add: with_kube_vip_digest_def example_spec_def example_versions_bundle_def
          example_bundle_def)
  show ?thesis using 1 2 3 4 by simp
qed

section \<open>The storage class: theorems\<close>

text \<open>
  Claim C9. For a provider built by \<^verbatim>\<open>NewProviderCustomNet\<close> from a datacenter config with
  \<^verbatim>\<open>DisableCSI\<close> set, \<^verbatim>\<open>InstallStorageClass\<close> returns \<^verbatim>\<open>nil\<close> and leaves the world as it
  was: nothing is applied. With \<^verbatim>\<open>DisableCSI\<close> unset it applies the default storage class
  manifest, once, to the given cluster, and returns what the client returns.
\<close>

theorem InstallStorageClass_csi:
  "(DisableCSI (vdc_Spec datacenterConfig) \<longrightarrow>
      InstallStorageClass defaultStorageClass
        (NewProviderCustomNet datacenterConfig clusterConfig' client builder skipIpCheck)
        cluster w = (None, w))
   \<and> (\<not> DisableCSI (vdc_Spec datacenterConfig) \<longrightarrow>
      InstallStorageClass defaultStorageClass
        (NewProviderCustomNet datacenterConfig clusterConfig' client builder skipIpCheck)
        cluster w =
        (ApplyKubeSpecFromBytes client cluster defaultStorageClass,
         w @ [EvApplyKubeSpecFromBytes cluster defaultStorageClass
                (ApplyKubeSpecFromBytes client cluster defaultStorageClass)]))"
  by (simp add: InstallStorageClass_def NewProviderCustomNet_def Let_def)

text \<open>Both cases on the concrete cluster, starting from the empty world.\<close>

theorem InstallStorageClass_csi_witness:
  "InstallStorageClass ''kind: StorageClass''
      (NewProviderCustomNet (example_vdc\<lparr>vdc_Spec := (vdc_Spec example_vdc)\<lparr>DisableCSI := True\<rparr>\<rparr>)
         example_cluster example_client example_builder False)
      example_workload [] = (None, [])
   \<and> InstallStorageClass ''kind: StorageClass'' example_provider example_workload [] =
       (None, [EvApplyKubeSpecFromBytes example_workload ''kind: StorageClass'' None])"
  using InstallStorageClass_csi [of "example_vdc\<lparr>vdc_Spec := (vdc_Spec example_vdc)\<lparr>DisableCSI := True\<rparr>\<rparr>"
      "''kind: StorageClass''" example_cluster example_client example_builder False
      example_workload "[]"]
    InstallStorageClass_csi [of example_vdc "''kind: StorageClass''" example_cluster
      example_client example_builder False example_workload "[]"]
  by (simp add: example_provider_def example_vdc_def example_client_def)

section \<open>SSH key generation: theorems\<close>

lemma firstKey_setFirstKey:
  "firstKey machineConfig = Inr key0 \<Longrightarrow> firstKey (setFirstKey key machineConfig) = Inr key"
  by (auto simp add: firstKey_def setFirstKey_def split: option.splits list.splits)

lemma visited_eq:
  "visited entry r = ((err, entries'), w') \<longleftrightarrow>
     (\<exists>entries. r = ((err, entries), w') \<and> entries' = entry # entries)"
  by (cases r) (auto simp add: visited_def)

lemma generateSSHKeysLoop_with_key:
  assumes "generatedKey \<noteq> []"
      and "generateSSHKeysLoop cm generatedKey machineConfigs w = ((err, machineConfigs'), w')"
  shows "w' = w \<and> (err = None \<longrightarrow>
           list_all2 (\<lambda>old new. fst new = fst old
               \<and> (firstKey (snd old) = Inr [] \<longrightarrow> firstKey (snd new) = Inr generatedKey)
               \<and> (firstKey (snd old) \<noteq> Inr [] \<longrightarrow> new = old))
             machineConfigs machineConfigs')"
  using assms
proof (induction machineConfigs arbitrary: machineConfigs')
  case Nil
  then show ?case by simp
next
  case (Cons entry rest)
  obtain name machineConfig where entry: "entry = (name, machineConfig)" by (cases entry)
  show ?case
  proof (cases "firstKey machineConfig")
    case (Inl e)
    with Cons.prems entry show ?thesis by auto
  next
    case (Inr key0)
    show ?thesis
    proof (cases "key0 = []")
      case True
      with Cons.prems entry Inr obtain entries where
        rest: "generateSSHKeysLoop cm generatedKey rest w = ((err, entries), w')"
        and out: "machineConfigs' = (name, setFirstKey generatedKey machineConfig) # entries"
        by (auto simp add: visited_eq)
      from Cons.IH [OF Cons.prems(1) rest] out entry Inr True firstKey_setFirstKey [OF Inr]
      show ?thesis by auto
    next
      case False
      with Cons.prems entry Inr obtain entries where
        rest: "generateSSHKeysLoop cm generatedKey rest w = ((err, entries), w')"
        and out: "machineConfigs' = (name, machineConfig) # entries"
        by (auto simp add: visited_eq)
      from Cons.IH [OF Cons.prems(1) rest] out entry Inr False
      show ?thesis by auto
    qed
  qed
qed

lemma generateSSHKeysLoop_without_key:
  assumes "\<forall>w key. GenerateSSHAuthKey cm w = Inr key \<longrightarrow> key \<noteq> []"
      and "generateSSHKeysLoop cm [] machineConfigs w = ((err, machineConfigs'), w')"
  shows "(w' = w \<and> (err = None \<longrightarrow>
            machineConfigs' = machineConfigs
            \<and> (\<forall>entry \<in> set machineConfigs. firstKey (snd entry) \<noteq> Inr [])))
       \<or> (\<exists>r. w' = w @ [EvGenerateSSHAuthKey r] \<and> GenerateSSHAuthKey cm w = r
            \<and> (err = None \<longrightarrow> (\<exists>key. r = Inr key \<and> key \<noteq> []
                 \<and> list_all2 (\<lambda>old new. fst new = fst old
                      \<and> (firstKey (snd old) = Inr [] \<longrightarrow> firstKey (snd new) = Inr key)
                      \<and> (firstKey (snd old) \<noteq> Inr [] \<longrightarrow> new = old))
                    machineConfigs machineConfigs')))"
  using assms(2)
proof (induction machineConfigs arbitrary: machineConfigs')
  case Nil
  then show ?case by simp
next
  case (Cons entry rest)
  obtain name machineConfig where entry: "entry = (name, machineConfig)" by (cases entry)
  show ?case
  proof (cases "firstKey machineConfig")
    case (Inl e)
    with Cons.prems entry show ?thesis by auto
  next
    case (Inr key0)
    show ?thesis
    proof (cases "key0 = []")
      case False
      with Cons.prems entry Inr obtain entries where
        rest: "generateSSHKeysLoop cm [] rest w = ((err, entries), w')"
        and out: "machineConfigs' = (name, machineConfig) # entries"
        by (auto simp add: visited_eq)
      from Cons.IH [OF rest] out entry Inr False
      show ?thesis by auto
    next
      case True
      show ?thesis
      proof (cases "GenerateSSHAuthKey cm w")
        case (Inl e)
        with Cons.prems entry Inr True show ?thesis by auto
      next
        case gen: (Inr newKey)
        with assms(1) have nonempty: "newKey \<noteq> []" by blast
        from Cons.prems entry Inr True gen obtain entries where
          rest: "generateSSHKeysLoop cm newKey rest (w @ [EvGenerateSSHAuthKey (Inr newKey)])
                   = ((err, entries), w')"
          and out: "machineConfigs' = (name, setFirstKey newKey machineConfig) # entries"
          by (auto simp add: visited_eq)
        from generateSSHKeysLoop_with_key [OF nonempty rest] out entry Inr True gen nonempty
          firstKey_setFirstKey [OF Inr]
        show ?thesis by auto
      qed
    qed
  qed
qed

lemma generateSSHKeysLoop_succeeds:
  assumes "\<forall>entry \<in> set machineConfigs. firstKey (snd entry) \<noteq> Inl Panic"
      and "\<forall>w. \<exists>key. GenerateSSHAuthKey cm w = Inr key"
  shows "fst (fst (generateSSHKeysLoop cm generatedKey machineConfigs w)) = None"
  using assms(1)
proof (induction machineConfigs arbitrary: generatedKey w)
  case Nil
  then show ?case by simp
next
  case (Cons entry rest)
  obtain name machineConfig where entry: "entry = (name, machineConfig)" by (cases entry)
  from Cons.prems have IH: "\<And>g w. fst (fst (generateSSHKeysLoop cm g rest w)) = None"
    by (intro Cons.IH) simp
  have v: "\<And>e r. fst (fst (visited e r)) = fst (fst r)"
    by (simp add: visited_def split: prod.splits)
  from Cons.prems entry have ok: "firstKey machineConfig \<noteq> Inl Panic" by simp
  from assms(2) obtain key where key: "GenerateSSHAuthKey cm w = Inr key" by blast
  show ?case
    using ok key entry
    by (cases "firstKey machineConfig")
       (auto simp add: v IH firstKey_def split: option.splits list.splits)
qed

text \<open>
  Claim C10. Let the key generator never return the empty key. A call of
  \<^verbatim>\<open>generateSSHKeysIfNotSet\<close> generates at most one key, and only in its starting world.
  When it returns without error there is one key such that every machine config whose
  first user's first authorized key was empty now has that key there, the key being the
  one generated in this call, and every other machine config is as it was. The call
  returns without error whenever every machine config has a first key of its first user
  and the generator succeeds.
\<close>

theorem generateSSHKeysIfNotSet_one_shared_key:
  assumes "\<forall>w key. GenerateSSHAuthKey cm w = Inr key \<longrightarrow> key \<noteq> []"
      and "generateSSHKeysIfNotSet cm machineConfigs w = ((err, machineConfigs'), w')"
  shows "(w' = w \<or> w' = w @ [EvGenerateSSHAuthKey (GenerateSSHAuthKey cm w)])
       \<and> (err = None \<longrightarrow>
            (\<exists>key. list_all2 (\<lambda>old new. fst new = fst old
                      \<and> (firstKey (snd old) = Inr [] \<longrightarrow>
                           firstKey (snd new) = Inr key \<and> GenerateSSHAuthKey cm w = Inr key
                           \<and> w' = w @ [EvGenerateSSHAuthKey (Inr key)])
                      \<and> (firstKey (snd old) \<noteq> Inr [] \<longrightarrow> new = old))
                    machineConfigs machineConfigs'))
       \<and> ((\<forall>entry \<in> set machineConfigs. firstKey (snd entry) \<noteq> Inl Panic)
            \<and> (\<forall>w. \<exists>key. GenerateSSHAuthKey cm w = Inr key) \<longrightarrow> err = None)"
proof -
  from assms(2) have run: "generateSSHKeysLoop cm [] machineConfigs w = ((err, machineConfigs'), w')"
    by (simp add: generateSSHKeysIfNotSet_def)
  have total: "(\<forall>entry \<in> set machineConfigs. firstKey (snd entry) \<noteq> Inl Panic)
            \<and> (\<forall>w. \<exists>key. GenerateSSHAuthKey cm w = Inr key) \<longrightarrow> err = None"
    using generateSSHKeysLoop_succeeds [of machineConfigs cm "[]" w] run by auto
  from generateSSHKeysLoop_without_key [OF assms(1) run]
  consider (none) "w' = w" "err = None \<longrightarrow> machineConfigs' = machineConfigs
            \<and> (\<forall>entry \<in> set machineConfigs. firstKey (snd entry) \<noteq> Inr [])"
    | (one) r where "w' = w @ [EvGenerateSSHAuthKey r]" "GenerateSSHAuthKey cm w = r"
        "err = None \<longrightarrow> (\<exists>key. r = Inr key \<and> key \<noteq> []
                 \<and> list_all2 (\<lambda>old new. fst new = fst old
                      \<and> (firstKey (snd old) = Inr [] \<longrightarrow> firstKey (snd new) = Inr key)
                      \<and> (firstKey (snd old) \<noteq> Inr [] \<longrightarrow> new = old))
                    machineConfigs machineConfigs')"
    by blast
  then have "(w' = w \<or> w' = w @ [EvGenerateSSHAuthKey (GenerateSSHAuthKey cm w)])
       \<and> (err = None \<longrightarrow>
            (\<exists>key. list_all2 (\<lambda>old new. fst new = fst old
                      \<and> (firstKey (snd old) = Inr [] \<longrightarrow>
                           firstKey (snd new) = Inr key \<and> GenerateSSHAuthKey cm w = Inr key
                           \<and> w' = w @ [EvGenerateSSHAuthKey (Inr key)])
                      \<and> (firstKey (snd old) \<noteq> Inr [] \<longrightarrow> new = old))
                    machineConfigs machineConfigs'))"
  proof cases
    case none
    then show ?thesis
      by (auto simp add: list_all2_conv_all_nth)
  next
    case one
    show ?thesis
    proof (intro conjI impI)
      show "w' = w \<or> w' = w @ [EvGenerateSSHAuthKey (GenerateSSHAuthKey cm w)]"
        using one(1,2) by simp
    next
      assume "err = None"
      with one(3) obtain key where key: "r = Inr key"
        and all: "list_all2 (\<lambda>old new. fst new = fst old
                      \<and> (firstKey (snd old) = Inr [] \<longrightarrow> firstKey (snd new) = Inr key)
                      \<and> (firstKey (snd old) \<noteq> Inr [] \<longrightarrow> new = old))
                    machineConfigs machineConfigs'"
        by blast
      have "list_all2 (\<lambda>old new. fst new = fst old
                      \<and> (firstKey (snd old) = Inr [] \<longrightarrow>
                           firstKey (snd new) = Inr key \<and> GenerateSSHAuthKey cm w = Inr key
                           \<and> w' = w @ [EvGenerateSSHAuthKey (Inr key)])
                      \<and> (firstKey (snd old) \<noteq> Inr [] \<longrightarrow> new = old))
                    machineConfigs machineConfigs'"
        using all one(1,2) key by (auto elim!: list_all2_mono)
      then show "\<exists>key. list_all2 (\<lambda>old new. fst new = fst old
                      \<and> (firstKey (snd old) = Inr [] \<longrightarrow>
                           firstKey (snd new) = Inr key \<and> GenerateSSHAuthKey cm w = Inr key
                           \<and> w' = w @ [EvGenerateSSHAuthKey (Inr key)])
                      \<and> (firstKey (snd old) \<noteq> Inr [] \<longrightarrow> new = old))
                    machineConfigs machineConfigs'"
        by blast
    qed
  qed
  with total show ?thesis by blast
qed

lemma example_generateSSHKeys:
  "generateSSHKeysIfNotSet example_common
      [(''cp'', example_unset_vmc ''cp''), (''machines'', example_vmc),
       (''etcd'', example_unset_vmc ''etcd'')] []
   = ((None, [(''cp'', setFirstKey ''ssh-rsa GENERATED'' (example_unset_vmc ''cp'')),
              (''machines'', example_vmc),
              (''etcd'', setFirstKey ''ssh-rsa GENERATED'' (example_unset_vmc ''etcd''))]),
      [EvGenerateSSHAuthKey (Inr ''ssh-rsa GENERATED'')])"
  by (simp add: generateSSHKeysIfNotSet_def firstKey_def example_unset_vmc_def example_vmc_def
        example_common_def visited_def)

text \<open>Three machine configs, two of them without a key.\<close>

theorem generateSSHKeysIfNotSet_one_shared_key_witness:
  "GenerateSSHAuthKey example_common [] = Inr ''ssh-rsa GENERATED''
   \<and> generateSSHKeysIfNotSet example_common
      [(''cp'', example_unset_vmc ''cp''), (''machines'', example_vmc),
       (''etcd'', example_unset_vmc ''etcd'')] []
     = ((None, [(''cp'', setFirstKey ''ssh-rsa GENERATED'' (example_unset_vmc ''cp'')),
              (''machines'', example_vmc),
              (''etcd'', setFirstKey ''ssh-rsa GENERATED'' (example_unset_vmc ''etcd''))]),
      [EvGenerateSSHAuthKey (Inr ''ssh-rsa GENERATED'')])
   \<and> (\<exists>key. list_all2 (\<lambda>old new. fst new = fst old
                      \<and> (firstKey (snd old) = Inr [] \<longrightarrow>
                           firstKey (snd new) = Inr key
                           \<and> GenerateSSHAuthKey example_common [] = Inr key
                           \<and> [EvGenerateSSHAuthKey (Inr ''ssh-rsa GENERATED'')]
                              = [] @ [EvGenerateSSHAuthKey (Inr key)])
                      \<and> (firstKey (snd old) \<noteq> Inr [] \<longrightarrow> new = old))
        [(''cp'', example_unset_vmc ''cp''), (''machines'', example_vmc),
         (''etcd'', example_unset_vmc ''etcd'')]
        [(''cp'', setFirstKey ''ssh-rsa GENERATED'' (example_unset_vmc ''cp'')),
         (''machines'', example_vmc),
         (''etcd'', setFirstKey ''ssh-rsa GENERATED'' (example_unset_vmc ''etcd''))])"
proof -
  have gen: "\<forall>w key. GenerateSSHAuthKey example_common w = Inr key \<longrightarrow> key \<noteq> []"
    by (auto simp add: example_common_def)
  have key: "GenerateSSHAuthKey example_common [] = Inr ''ssh-rsa GENERATED''"
    by (simp add: example_common_def)
  show ?thesis
    using key example_generateSSHKeys
      generateSSHKeysIfNotSet_one_shared_key [OF gen example_generateSSHKeys]
    by blast
qed

section \<open>Generating the Cluster API spec for an upgrade: theorems\<close>

lemma quiet_lift: "quiet (lift r)"
  by (simp add: quiet_def lift_def)

lemma quiet_succeed: "quiet (succeed x)"
  by (simp add: quiet_def succeed_def)

lemma quiet_andThen:
  assumes "quiet m" and "\<And>x. quiet (f x)"
  shows "quiet (andThen m f)"
proof (unfold quiet_def, intro allI impI)
  fix w r w'
  assume run: "andThen m f w = (r, w')"
  obtain r1 w1 where m: "m w = (r1, w1)" by (cases "m w")
  with assms(1) obtain evs1 where w1: "w1 = w @ evs1" "\<forall>e \<in> set evs1. \<not> touchesEtcd e"
    unfolding quiet_def by blast
  show "\<exists>evs. w' = w @ evs \<and> (\<forall>e \<in> set evs. \<not> touchesEtcd e)"
  proof (cases r1)
    case (Inl e)
    with run m w1 show ?thesis by (auto simp add: andThen_def)
  next
    case (Inr x)
    with run m have "f x w1 = (r, w')" by (simp add: andThen_def)
    with assms(2) obtain evs2 where "w' = w1 @ evs2" "\<forall>e \<in> set evs2. \<not> touchesEtcd e"
      unfolding quiet_def by blast
    with w1 have "w' = w @ (evs1 @ evs2) \<and> (\<forall>e \<in> set (evs1 @ evs2). \<not> touchesEtcd e)"
      by auto
    then show ?thesis by blast
  qed
qed

lemma quiet_mintTemplateName:
  "kind \<noteq> EtcdTemplate \<Longrightarrow> quiet (mintTemplateName builder kind nameAt)"
  by (auto simp add: quiet_def mintTemplateName_def Let_def)

lemma quiet_upgradeControlPlaneTemplateName:
  "quiet (upgradeControlPlaneTemplateName cm p bootstrapCluster workloadCluster currentSpec
            newClusterSpec)"
  unfolding upgradeControlPlaneTemplateName_def Let_def
  by (intro quiet_andThen quiet_lift quiet_succeed)
     (auto intro!: quiet_andThen quiet_lift quiet_succeed quiet_mintTemplateName)

lemma quiet_upgradeWorkerGroupTemplateNames:
  "quiet (upgradeWorkerGroupTemplateNames api cm p bootstrapCluster workloadCluster currentSpec
            newClusterSpec vdc previousWorkerNodeGroupConfigs workerNodeGroupConfiguration)"
  unfolding upgradeWorkerGroupTemplateNames_def Let_def
  by (intro quiet_andThen quiet_lift quiet_succeed)
     (auto intro!: quiet_andThen quiet_lift quiet_succeed quiet_mintTemplateName
           split: option.splits prod.splits)

lemma quiet_upgradeWorkerTemplateNames:
  "quiet (upgradeWorkerTemplateNames api cm p bootstrapCluster workloadCluster currentSpec
            newClusterSpec vdc previousWorkerNodeGroupConfigs groups workloadTemplateNames
            kubeadmconfigTemplateNames)"
proof (induction groups arbitrary: workloadTemplateNames kubeadmconfigTemplateNames)
  case Nil
  show ?case by (simp add: quiet_succeed)
next
  case (Cons g groups)
  show ?case
    by (simp, intro quiet_andThen quiet_upgradeWorkerGroupTemplateNames)
       (auto intro: Cons.IH)
qed

lemma upgradeControlPlaneTemplateName_reads:
  assumes "upgradeControlPlaneTemplateName cm p bootstrapCluster workloadCluster currentSpec
             newClusterSpec w = (Inr x, w')"
      and "GetEksaCluster (providerKubectlClient p) workloadCluster
             (cluster_Name (Cluster newClusterSpec)) = Inr c"
      and "GetEksaVSphereDatacenterConfig (providerKubectlClient p)
             (vdc_Name (VSphereDatacenter newClusterSpec)) (KubeconfigFile workloadCluster)
             (cluster_Namespace (Cluster newClusterSpec)) = Inr vdc"
  shows "\<exists>controlPlaneTemplateName. x = (c, vdc, controlPlaneTemplateName)"
  using assms
  by (auto simp add: upgradeControlPlaneTemplateName_def Let_def andThen_def lift_def
        succeed_def mintTemplateName_def split: sum.splits if_splits)

lemma upgradeEtcdTemplateName_needed:
  assumes "ExternalEtcdConfiguration (cluster_Spec (Cluster newClusterSpec)) = Some newEtcd"
      and "ExternalEtcdConfiguration (cluster_Spec c) = Some appliedEtcd"
      and "GetEksaVSphereMachineConfig (providerKubectlClient p)
             (ref_Name (etcd_MachineGroupRef appliedEtcd)) (KubeconfigFile workloadCluster)
             (cluster_Namespace (Cluster newClusterSpec)) = Inr etcdMachineVmc"
      and "NeedsNewEtcdTemplate currentSpec newClusterSpec vdc (VSphereDatacenter newClusterSpec)
             (Some etcdMachineVmc)
             (VSphereMachineConfigs newClusterSpec (ref_Name (etcd_MachineGroupRef newEtcd)))
             = Inr True"
  shows "upgradeEtcdTemplateName cm upgradeInProgress p bootstrapCluster workloadCluster
           currentSpec newClusterSpec c vdc w =
    (case UpdateAnnotation (providerKubectlClient p) ''etcdadmcluster''
            (cluster_Name (Cluster newClusterSpec) @ ''-etcd'') [upgradeInProgress \<mapsto> ''true'']
            [WithCluster bootstrapCluster, WithNamespace EksaSystemNamespace] of
       Some err \<Rightarrow>
         (Inl err,
          w @ [EvUpdateAnnotation ''etcdadmcluster''
                 (cluster_Name (Cluster newClusterSpec) @ ''-etcd'')
                 [upgradeInProgress \<mapsto> ''true'']
                 [WithCluster bootstrapCluster, WithNamespace EksaSystemNamespace] (Some err)])
     | None \<Rightarrow>
         (Inr (EtcdMachineTemplateName cm (cluster_Name (Cluster newClusterSpec))
                 (now (templateBuilder p)
                    (w @ [EvUpdateAnnotation ''etcdadmcluster''
                            (cluster_Name (Cluster newClusterSpec) @ ''-etcd'')
                            [upgradeInProgress \<mapsto> ''true'']
                            [WithCluster bootstrapCluster, WithNamespace EksaSystemNamespace]
                            None]))),
          w @ [EvUpdateAnnotation ''etcdadmcluster''
                 (cluster_Name (Cluster newClusterSpec) @ ''-etcd'')
                 [upgradeInProgress \<mapsto> ''true'']
                 [WithCluster bootstrapCluster, WithNamespace EksaSystemNamespace] None,
               EvTemplateName EtcdTemplate
                 (EtcdMachineTemplateName cm (cluster_Name (Cluster newClusterSpec))
                    (now (templateBuilder p)
                       (w @ [EvUpdateAnnotation ''etcdadmcluster''
                               (cluster_Name (Cluster newClusterSpec) @ ''-etcd'')
                               [upgradeInProgress \<mapsto> ''true'']
                               [WithCluster bootstrapCluster, WithNamespace EksaSystemNamespace]
                               None])))]))"
  using assms
  by (simp add: upgradeEtcdTemplateName_def Let_def andThen_def lift_def updateAnnotation_def
        mintTemplateName_def del: append.simps split: option.splits)

lemma generateCAPISpecForUpgrade_trace:
  assumes run: "generateCAPISpecForUpgrade api cm upgradeInProgress p bootstrapCluster
             workloadCluster currentSpec newClusterSpec w = (result, w')"
      and etcd: "ExternalEtcdConfiguration (cluster_Spec (Cluster newClusterSpec)) = Some newEtcd"
      and c: "GetEksaCluster (providerKubectlClient p) workloadCluster
             (cluster_Name (Cluster newClusterSpec)) = Inr c"
      and vdc: "GetEksaVSphereDatacenterConfig (providerKubectlClient p)
             (vdc_Name (VSphereDatacenter newClusterSpec)) (KubeconfigFile workloadCluster)
             (cluster_Namespace (Cluster newClusterSpec)) = Inr vdc"
      and applied: "ExternalEtcdConfiguration (cluster_Spec c) = Some appliedEtcd"
      and vmc: "GetEksaVSphereMachineConfig (providerKubectlClient p)
             (ref_Name (etcd_MachineGroupRef appliedEtcd)) (KubeconfigFile workloadCluster)
             (cluster_Namespace (Cluster newClusterSpec)) = Inr etcdMachineVmc"
      and needs: "NeedsNewEtcdTemplate currentSpec newClusterSpec vdc
             (VSphereDatacenter newClusterSpec) (Some etcdMachineVmc)
             (VSphereMachineConfigs newClusterSpec (ref_Name (etcd_MachineGroupRef newEtcd)))
             = Inr True"
  shows "\<exists>before. (\<forall>e \<in> set before. \<not> touchesEtcd e) \<and>
     ((isl result \<and> w' = w @ before)
      \<or> (\<exists>err. UpdateAnnotation (providerKubectlClient p) ''etcdadmcluster''
            (cluster_Name (Cluster newClusterSpec) @ ''-etcd'') [upgradeInProgress \<mapsto> ''true'']
            [WithCluster bootstrapCluster, WithNamespace EksaSystemNamespace] = Some err
            \<and> result = Inl err
            \<and> w' = w @ before @ [EvUpdateAnnotation ''etcdadmcluster''
                 (cluster_Name (Cluster newClusterSpec) @ ''-etcd'')
                 [upgradeInProgress \<mapsto> ''true'']
                 [WithCluster bootstrapCluster, WithNamespace EksaSystemNamespace] (Some err)])
      \<or> (UpdateAnnotation (providerKubectlClient p) ''etcdadmcluster''
            (cluster_Name (Cluster newClusterSpec) @ ''-etcd'') [upgradeInProgress \<mapsto> ''true'']
            [WithCluster bootstrapCluster, WithNamespace EksaSystemNamespace] = None
          \<and> (\<exists>name. w' = w @ before @ [EvUpdateAnnotation ''etcdadmcluster''
                 (cluster_Name (Cluster newClusterSpec) @ ''-etcd'')
                 [upgradeInProgress \<mapsto> ''true'']
                 [WithCluster bootstrapCluster, WithNamespace EksaSystemNamespace] None, EvTemplateName EtcdTemplate name]
                \<and> (isl result
                    \<or> (\<exists>controlPlaneTemplateName cp workers. result = Inr (cp, workers)
                         \<and> GenerateCAPISpecControlPlane (templateBuilder p) newClusterSpec
                              (cpOpt controlPlaneTemplateName name) = Inr cp)))))"
proof -
  let ?upd = "UpdateAnnotation (providerKubectlClient p) ''etcdadmcluster''
            (cluster_Name (Cluster newClusterSpec) @ ''-etcd'') [upgradeInProgress \<mapsto> ''true'']
            [WithCluster bootstrapCluster, WithNamespace EksaSystemNamespace]"
  let ?ann = "EvUpdateAnnotation ''etcdadmcluster''
                 (cluster_Name (Cluster newClusterSpec) @ ''-etcd'')
                 [upgradeInProgress \<mapsto> ''true'']
                 [WithCluster bootstrapCluster, WithNamespace EksaSystemNamespace]"
  obtain rA wA where A: "upgradeControlPlaneTemplateName cm p bootstrapCluster workloadCluster
      currentSpec newClusterSpec w = (rA, wA)"
    by (cases "upgradeControlPlaneTemplateName cm p bootstrapCluster workloadCluster
      currentSpec newClusterSpec w")
  with quiet_upgradeControlPlaneTemplateName obtain evsA where
    wA: "wA = w @ evsA" and evsA: "\<forall>e \<in> set evsA. \<not> touchesEtcd e"
    unfolding quiet_def by blast
  show ?thesis
  proof (cases rA)
    case (Inl e)
    with run A have "result = Inl e" "w' = wA"
      by (simp_all add: generateCAPISpecForUpgrade_def andThen_def)
    with wA evsA show ?thesis by auto
  next
    case (Inr x)
    with A upgradeControlPlaneTemplateName_reads [OF _ c vdc]
    obtain controlPlaneTemplateName where x: "x = (c, vdc, controlPlaneTemplateName)"
      by blast
    obtain rB wB where B: "upgradeWorkerTemplateNames api cm p bootstrapCluster workloadCluster
        currentSpec newClusterSpec vdc
        (BuildMapForWorkerNodeGroupsByName
           (WorkerNodeGroupConfigurations (cluster_Spec (Cluster currentSpec))))
        (WorkerNodeGroupConfigurations (cluster_Spec (Cluster newClusterSpec)))
        Map.empty Map.empty wA = (rB, wB)"
      by (cases "upgradeWorkerTemplateNames api cm p bootstrapCluster workloadCluster
        currentSpec newClusterSpec vdc
        (BuildMapForWorkerNodeGroupsByName
           (WorkerNodeGroupConfigurations (cluster_Spec (Cluster currentSpec))))
        (WorkerNodeGroupConfigurations (cluster_Spec (Cluster newClusterSpec)))
        Map.empty Map.empty wA")
    with quiet_upgradeWorkerTemplateNames obtain evsB where
      wB: "wB = wA @ evsB" and evsB: "\<forall>e \<in> set evsB. \<not> touchesEtcd e"
      unfolding quiet_def by blast
    from wA wB evsA evsB have before: "wB = w @ (evsA @ evsB)"
      "\<forall>e \<in> set (evsA @ evsB). \<not> touchesEtcd e" by auto
    show ?thesis
    proof (cases rB)
      case (Inl e)
      with run A Inr x B have "result = Inl e" "w' = wB"
        by (simp_all add: generateCAPISpecForUpgrade_def andThen_def Let_def)
      with before show ?thesis by (intro exI [of _ "evsA @ evsB"]) simp
    next
      case names: (Inr y)
      obtain workloadTemplateNames kubeadmconfigTemplateNames
        where y: "y = (workloadTemplateNames, kubeadmconfigTemplateNames)" by (cases y)
      note E = upgradeEtcdTemplateName_needed [OF etcd applied vmc needs,
          of cm upgradeInProgress bootstrapCluster wB]
      show ?thesis
      proof (cases ?upd)
        case (Some err)
        with run A Inr x B names y E have "result = Inl err" "w' = wB @ [?ann (Some err)]"
          by (simp_all add: generateCAPISpecForUpgrade_def andThen_def Let_def
                del: append.simps)
        with before Some show ?thesis
          by (intro exI [of _ "evsA @ evsB"]) simp
      next
        case None
        define name where "name = EtcdMachineTemplateName cm (cluster_Name (Cluster newClusterSpec))
                 (now (templateBuilder p) (wB @ [?ann None]))"
        from None E have E': "upgradeEtcdTemplateName cm upgradeInProgress p bootstrapCluster
            workloadCluster currentSpec newClusterSpec c vdc wB
            = (Inr name, wB @ [?ann None, EvTemplateName EtcdTemplate name])"
          by (simp add: name_def del: append.simps)
        from run A Inr x B names y E' have w': "w' = wB @ [?ann None, EvTemplateName EtcdTemplate name]"
          and result: "result =
            (case GenerateCAPISpecControlPlane (templateBuilder p) newClusterSpec
                    (cpOpt controlPlaneTemplateName name) of
               Inl e \<Rightarrow> Inl e
             | Inr cp \<Rightarrow>
                 (case GenerateCAPISpecWorkers (templateBuilder p) newClusterSpec
                         workloadTemplateNames kubeadmconfigTemplateNames of
                    Inl e \<Rightarrow> Inl e
                  | Inr workers \<Rightarrow> Inr (cp, workers)))"
          by (auto simp add: generateCAPISpecForUpgrade_def andThen_def Let_def lift_def
                succeed_def simp del: append.simps split: sum.splits)
        from result have "isl result
            \<or> (\<exists>controlPlaneTemplateName cp workers. result = Inr (cp, workers)
                 \<and> GenerateCAPISpecControlPlane (templateBuilder p) newClusterSpec
                      (cpOpt controlPlaneTemplateName name) = Inr cp)"
          by (auto split: sum.splits)
        with before None w' show ?thesis
          by (intro exI [of _ "evsA @ evsB"]) auto
      qed
    qed
  qed
qed

text \<open>
  Claim C2. Take a run of \<^verbatim>\<open>GenerateCAPISpecForUpgrade\<close> in which the new spec has external
  etcd and the etcd differ, applied to the datacenter config and the etcd machine config
  the client returns, says that a new etcd machine template is needed. Then:
  \<^item> if the client refuses the annotation update, the run returns an error, so no spec, and
    no etcd template name is made;
  \<^item> whenever the run makes an etcd template name, the events of the run are some events
    that neither annotate nor name an etcd template, then the successful update of the
    annotation \<open>upgradeInProgress\<close> to \<^verbatim>\<open>true\<close> on the \<^verbatim>\<open>etcdadmcluster\<close> named after the
    cluster, then the making of the name, and nothing after;
  \<^item> if the run returns the two specs, its events have this shape and the control plane
    spec is what the template builder renders with that name as etcd template name.
\<close>

theorem GenerateCAPISpecForUpgrade_annotates_etcd_first:
  assumes run: "GenerateCAPISpecForUpgrade api cm upgradeInProgress p bootstrapCluster
             workloadCluster currentSpec newClusterSpec w = (result, w')"
      and etcd: "ExternalEtcdConfiguration (cluster_Spec (Cluster newClusterSpec)) = Some newEtcd"
      and c: "GetEksaCluster (providerKubectlClient p) workloadCluster
             (cluster_Name (Cluster newClusterSpec)) = Inr c"
      and vdc: "GetEksaVSphereDatacenterConfig (providerKubectlClient p)
             (vdc_Name (VSphereDatacenter newClusterSpec)) (KubeconfigFile workloadCluster)
             (cluster_Namespace (Cluster newClusterSpec)) = Inr vdc"
      and applied: "ExternalEtcdConfiguration (cluster_Spec c) = Some appliedEtcd"
      and vmc: "GetEksaVSphereMachineConfig (providerKubectlClient p)
             (ref_Name (etcd_MachineGroupRef appliedEtcd)) (KubeconfigFile workloadCluster)
             (cluster_Namespace (Cluster newClusterSpec)) = Inr etcdMachineVmc"
      and needs: "NeedsNewEtcdTemplate currentSpec newClusterSpec vdc
             (VSphereDatacenter newClusterSpec) (Some etcdMachineVmc)
             (VSphereMachineConfigs newClusterSpec (ref_Name (etcd_MachineGroupRef newEtcd)))
             = Inr True"
  shows "(UpdateAnnotation (providerKubectlClient p) ''etcdadmcluster''
            (cluster_Name (Cluster newClusterSpec) @ ''-etcd'') [upgradeInProgress \<mapsto> ''true'']
            [WithCluster bootstrapCluster, WithNamespace EksaSystemNamespace] \<noteq> None \<longrightarrow>
            isl result
            \<and> (\<forall>name. EvTemplateName EtcdTemplate name \<notin> set (drop (length w) w')))
       \<and> (\<forall>name. EvTemplateName EtcdTemplate name \<in> set (drop (length w) w') \<longrightarrow>
            (\<exists>before. (\<forall>e \<in> set before. \<not> touchesEtcd e)
               \<and> w' = w @ before @ [EvUpdateAnnotation ''etcdadmcluster''
                 (cluster_Name (Cluster newClusterSpec) @ ''-etcd'')
                 [upgradeInProgress \<mapsto> ''true'']
                 [WithCluster bootstrapCluster, WithNamespace EksaSystemNamespace] None, EvTemplateName EtcdTemplate name]))
       \<and> (\<forall>cp workers. result = Inr (cp, workers) \<longrightarrow>
            (\<exists>before name controlPlaneTemplateName.
               (\<forall>e \<in> set before. \<not> touchesEtcd e)
               \<and> w' = w @ before @ [EvUpdateAnnotation ''etcdadmcluster''
                 (cluster_Name (Cluster newClusterSpec) @ ''-etcd'')
                 [upgradeInProgress \<mapsto> ''true'']
                 [WithCluster bootstrapCluster, WithNamespace EksaSystemNamespace] None, EvTemplateName EtcdTemplate name]
               \<and> GenerateCAPISpecControlPlane (templateBuilder p) newClusterSpec
                    (cpOpt controlPlaneTemplateName name) = Inr cp))"
proof -
  let ?upd = "UpdateAnnotation (providerKubectlClient p) ''etcdadmcluster''
            (cluster_Name (Cluster newClusterSpec) @ ''-etcd'') [upgradeInProgress \<mapsto> ''true'']
            [WithCluster bootstrapCluster, WithNamespace EksaSystemNamespace]"
  let ?ann = "EvUpdateAnnotation ''etcdadmcluster''
                 (cluster_Name (Cluster newClusterSpec) @ ''-etcd'')
                 [upgradeInProgress \<mapsto> ''true'']
                 [WithCluster bootstrapCluster, WithNamespace EksaSystemNamespace]"
  obtain r0 where inner: "generateCAPISpecForUpgrade api cm upgradeInProgress p bootstrapCluster
             workloadCluster currentSpec newClusterSpec w = (r0, w')"
    and result: "result = (case r0 of
                   Inl err \<Rightarrow> Inl (wrapErr ''generating cluster api spec contents: '' err)
                 | Inr specs \<Rightarrow> Inr specs)"
    using run
    by (cases "generateCAPISpecForUpgrade api cm upgradeInProgress p bootstrapCluster
             workloadCluster currentSpec newClusterSpec w")
       (auto simp add: GenerateCAPISpecForUpgrade_def split: sum.splits)
  from result have failed: "isl r0 \<Longrightarrow> isl result" and same: "\<And>specs. result = Inr specs \<Longrightarrow> r0 = Inr specs"
    by (auto split: sum.splits)
  from generateCAPISpecForUpgrade_trace [OF inner etcd c vdc applied vmc needs]
  obtain before where quiet: "\<forall>e \<in> set before. \<not> touchesEtcd e"
    and shape: "(isl r0 \<and> w' = w @ before)
      \<or> (\<exists>err. ?upd = Some err \<and> r0 = Inl err \<and> w' = w @ before @ [?ann (Some err)])
      \<or> (?upd = None
          \<and> (\<exists>name. w' = w @ before @ [?ann None, EvTemplateName EtcdTemplate name]
                \<and> (isl r0
                    \<or> (\<exists>controlPlaneTemplateName cp workers. r0 = Inr (cp, workers)
                         \<and> GenerateCAPISpecControlPlane (templateBuilder p) newClusterSpec
                              (cpOpt controlPlaneTemplateName name) = Inr cp))))"
    by blast
  from quiet have none: "\<And>name. EvTemplateName EtcdTemplate name \<notin> set before"
    by (metis touchesEtcd.simps(2))
  from shape consider
      (early) "isl r0" "w' = w @ before"
    | (refused) err where "?upd = Some err" "r0 = Inl err" "w' = w @ before @ [?ann (Some err)]"
    | (minted) name where "?upd = None"
        "w' = w @ before @ [?ann None, EvTemplateName EtcdTemplate name]"
        "isl r0 \<or> (\<exists>controlPlaneTemplateName cp workers. r0 = Inr (cp, workers)
             \<and> GenerateCAPISpecControlPlane (templateBuilder p) newClusterSpec
                  (cpOpt controlPlaneTemplateName name) = Inr cp)"
    by blast
  then show ?thesis
  proof cases
    case early
    have "isl result" using early(1) by (rule failed)
    moreover have "\<And>name. EvTemplateName EtcdTemplate name \<notin> set (drop (length w) w')"
      using early(2) none by simp
    ultimately show ?thesis by auto
  next
    case refused
    have "isl result" using refused(2) failed by simp
    moreover have "\<And>name. EvTemplateName EtcdTemplate name \<notin> set (drop (length w) w')"
      using refused(3) none by simp
    ultimately show ?thesis by auto
  next
    case minted
    have shown: "\<And>name'. EvTemplateName EtcdTemplate name' \<in> set (drop (length w) w')
        \<Longrightarrow> name' = name"
      using minted(2) none by auto
    have two: "\<forall>name'. EvTemplateName EtcdTemplate name' \<in> set (drop (length w) w') \<longrightarrow>
            (\<exists>before. (\<forall>e \<in> set before. \<not> touchesEtcd e)
               \<and> w' = w @ before @ [?ann None, EvTemplateName EtcdTemplate name'])"
      using shown minted(2) quiet by blast
    have three: "\<forall>cp workers. result = Inr (cp, workers) \<longrightarrow>
            (\<exists>before name controlPlaneTemplateName.
               (\<forall>e \<in> set before. \<not> touchesEtcd e)
               \<and> w' = w @ before @ [?ann None, EvTemplateName EtcdTemplate name]
               \<and> GenerateCAPISpecControlPlane (templateBuilder p) newClusterSpec
                    (cpOpt controlPlaneTemplateName name) = Inr cp)"
    proof (intro allI impI)
      fix cp workers
      assume "result = Inr (cp, workers)"
      then have "r0 = Inr (cp, workers)" by (rule same)
      with minted(3) obtain controlPlaneTemplateName where
        "GenerateCAPISpecControlPlane (templateBuilder p) newClusterSpec
           (cpOpt controlPlaneTemplateName name) = Inr cp"
        by auto
      with minted(2) quiet show "\<exists>before name controlPlaneTemplateName.
               (\<forall>e \<in> set before. \<not> touchesEtcd e)
               \<and> w' = w @ before @ [?ann None, EvTemplateName EtcdTemplate name]
               \<and> GenerateCAPISpecControlPlane (templateBuilder p) newClusterSpec
                    (cpOpt controlPlaneTemplateName name) = Inr cp"
        by blast
    qed
    from minted(1) two three show ?thesis by simp
  qed
qed

lemma example_upgrade_run:
  "GenerateCAPISpecForUpgrade example_api example_common ''etcdcluster.cluster.x-k8s.io/upgrading''
      example_provider example_bootstrap example_workload example_spec
      (with_version ''1.24'' example_spec) []
   = (Inr (''etcd: test-etcd-template'', ''workers''),
      [EvTemplateName ControlPlaneTemplate ''test-control-plane-template'',
       EvTemplateName (WorkerTemplate ''md-0'') ''test-md-0'',
       EvUpdateAnnotation ''etcdadmcluster'' ''test-etcd''
         [''etcdcluster.cluster.x-k8s.io/upgrading'' \<mapsto> ''true'']
         [WithCluster example_bootstrap, WithNamespace EksaSystemNamespace] None,
       EvTemplateName EtcdTemplate ''test-etcd-template''])"
  by (simp add: GenerateCAPISpecForUpgrade_def generateCAPISpecForUpgrade_def
        upgradeControlPlaneTemplateName_def upgradeWorkerGroupTemplateNames_def
        upgradeEtcdTemplateName_def getWorkerNodeMachineConfigs_def
        needsNewMachineTemplate_def needsNewKubeadmConfigTemplate_def
        NeedsNewControlPlaneTemplate_def NeedsNewWorkloadTemplate_def
        NeedsNewKubeadmConfigTemplate_def NeedsNewEtcdTemplate_def
        BuildMapForWorkerNodeGroupsByName_def machineDeploymentName_def cpOpt_def
        andThen_def lift_def succeed_def mintTemplateName_def updateAnnotation_def Let_def
        with_version_def example_spec_def example_cluster_def example_group_def example_ref_def
        example_vdc_def example_vmc_def example_api_def example_common_def example_client_def
        example_builder_def example_provider_def NewProviderCustomNet_def)

text \<open>
  The upgrade of the concrete cluster from 1.23 to 1.24 returns both specs after four
  events, the annotation third and the etcd template name last; with a client that
  refuses the annotation update the same upgrade returns an error.
\<close>

theorem GenerateCAPISpecForUpgrade_annotates_etcd_first_witness:
  "GenerateCAPISpecForUpgrade example_api example_common ''etcdcluster.cluster.x-k8s.io/upgrading''
      example_provider example_bootstrap example_workload example_spec
      (with_version ''1.24'' example_spec) []
   = (Inr (''etcd: test-etcd-template'', ''workers''),
      [EvTemplateName ControlPlaneTemplate ''test-control-plane-template'',
       EvTemplateName (WorkerTemplate ''md-0'') ''test-md-0'',
       EvUpdateAnnotation ''etcdadmcluster'' ''test-etcd''
         [''etcdcluster.cluster.x-k8s.io/upgrading'' \<mapsto> ''true'']
         [WithCluster example_bootstrap, WithNamespace EksaSystemNamespace] None,
       EvTemplateName EtcdTemplate ''test-etcd-template''])
   \<and> (\<exists>before name controlPlaneTemplateName.
         (\<forall>e \<in> set before. \<not> touchesEtcd e)
         \<and> [EvTemplateName ControlPlaneTemplate ''test-control-plane-template'',
             EvTemplateName (WorkerTemplate ''md-0'') ''test-md-0'',
             EvUpdateAnnotation ''etcdadmcluster'' ''test-etcd''
               [''etcdcluster.cluster.x-k8s.io/upgrading'' \<mapsto> ''true'']
               [WithCluster example_bootstrap, WithNamespace EksaSystemNamespace] None,
             EvTemplateName EtcdTemplate ''test-etcd-template'']
            = [] @ before @
              [EvUpdateAnnotation ''etcdadmcluster''
                 (cluster_Name (Cluster (with_version ''1.24'' example_spec)) @ ''-etcd'')
                 [''etcdcluster.cluster.x-k8s.io/upgrading'' \<mapsto> ''true'']
                 [WithCluster example_bootstrap, WithNamespace EksaSystemNamespace] None,
               EvTemplateName EtcdTemplate name]
         \<and> GenerateCAPISpecControlPlane (templateBuilder example_provider)
              (with_version ''1.24'' example_spec) (cpOpt controlPlaneTemplateName name)
            = Inr ''etcd: test-etcd-template'')
   \<and> isl (fst (GenerateCAPISpecForUpgrade example_api example_common
        ''etcdcluster.cluster.x-k8s.io/upgrading'' example_refusing_provider example_bootstrap
        example_workload example_spec (with_version ''1.24'' example_spec) []))"
proof -
  let ?new = "with_version ''1.24'' example_spec"
  have etcd: "ExternalEtcdConfiguration (cluster_Spec (Cluster ?new))
      = Some \<lparr>etcd_MachineGroupRef = example_ref\<rparr>"
    by (simp add: with_version_def example_spec_def example_cluster_def)
  have applied: "ExternalEtcdConfiguration (cluster_Spec example_cluster)
      = Some \<lparr>etcd_MachineGroupRef = example_ref\<rparr>"
    by (simp add: example_cluster_def)
  have needs: "NeedsNewEtcdTemplate example_spec ?new example_vdc (VSphereDatacenter ?new)
      (Some example_vmc)
      (VSphereMachineConfigs ?new (ref_Name (etcd_MachineGroupRef \<lparr>etcd_MachineGroupRef = example_ref\<rparr>)))
      = Inr True"
    by (simp add: NeedsNewEtcdTemplate_def with_version_def example_spec_def example_cluster_def)
  have c: "GetEksaCluster (providerKubectlClient example_provider) example_workload
      (cluster_Name (Cluster ?new)) = Inr example_cluster"
    and vdc: "GetEksaVSphereDatacenterConfig (providerKubectlClient example_provider)
      (vdc_Name (VSphereDatacenter ?new)) (KubeconfigFile example_workload)
      (cluster_Namespace (Cluster ?new)) = Inr example_vdc"
    and vmc: "GetEksaVSphereMachineConfig (providerKubectlClient example_provider)
      (ref_Name (etcd_MachineGroupRef \<lparr>etcd_MachineGroupRef = example_ref\<rparr>))
      (KubeconfigFile example_workload) (cluster_Namespace (Cluster ?new)) = Inr example_vmc"
    by (simp_all add: example_provider_def NewProviderCustomNet_def example_client_def
          with_version_def example_spec_def example_cluster_def example_vdc_def example_ref_def)
  have c': "GetEksaCluster (providerKubectlClient example_refusing_provider) example_workload
      (cluster_Name (Cluster ?new)) = Inr example_cluster"
    and vdc': "GetEksaVSphereDatacenterConfig (providerKubectlClient example_refusing_provider)
      (vdc_Name (VSphereDatacenter ?new)) (KubeconfigFile example_workload)
      (cluster_Namespace (Cluster ?new)) = Inr example_vdc"
    and vmc': "GetEksaVSphereMachineConfig (providerKubectlClient example_refusing_provider)
      (ref_Name (etcd_MachineGroupRef \<lparr>etcd_MachineGroupRef = example_ref\<rparr>))
      (KubeconfigFile example_workload) (cluster_Namespace (Cluster ?new)) = Inr example_vmc"
    and refused: "UpdateAnnotation (providerKubectlClient example_refusing_provider)
      ''etcdadmcluster'' (cluster_Name (Cluster ?new) @ ''-etcd'')
      [''etcdcluster.cluster.x-k8s.io/upgrading'' \<mapsto> ''true'']
      [WithCluster example_bootstrap, WithNamespace EksaSystemNamespace] \<noteq> None"
    by (simp_all add: example_refusing_provider_def example_client_def
          with_version_def example_spec_def example_cluster_def example_vdc_def example_ref_def)
  note ok = GenerateCAPISpecForUpgrade_annotates_etcd_first
      [OF example_upgrade_run etcd c vdc applied vmc needs]
  note bad = GenerateCAPISpecForUpgrade_annotates_etcd_first
      [OF surjective_pairing etcd c' vdc' applied vmc' needs]
  from ok have "\<exists>before name controlPlaneTemplateName.
         (\<forall>e \<in> set before. \<not> touchesEtcd e)
         \<and> [EvTemplateName ControlPlaneTemplate ''test-control-plane-template'',
             EvTemplateName (WorkerTemplate ''md-0'') ''test-md-0'',
             EvUpdateAnnotation ''etcdadmcluster'' ''test-etcd''
               [''etcdcluster.cluster.x-k8s.io/upgrading'' \<mapsto> ''true'']
               [WithCluster example_bootstrap, WithNamespace EksaSystemNamespace] None,
             EvTemplateName EtcdTemplate ''test-etcd-template'']
            = [] @ before @
              [EvUpdateAnnotation ''etcdadmcluster''
                 (cluster_Name (Cluster ?new) @ ''-etcd'')
                 [''etcdcluster.cluster.x-k8s.io/upgrading'' \<mapsto> ''true'']
                 [WithCluster example_bootstrap, WithNamespace EksaSystemNamespace] None,
               EvTemplateName EtcdTemplate name]
         \<and> GenerateCAPISpecControlPlane (templateBuilder example_provider) ?new
              (cpOpt controlPlaneTemplateName name) = Inr ''etcd: test-etcd-template''"
    by blast
  moreover from bad refused have "isl (fst (GenerateCAPISpecForUpgrade example_api example_common
        ''etcdcluster.cluster.x-k8s.io/upgrading'' example_refusing_provider example_bootstrap
        example_workload example_spec ?new []))"
    by blast
  ultimately show ?thesis using example_upgrade_run by blast
qed

end
